theory Spec2Isabelle
  imports Main
begin

section \<open>Values of the platform: JSON, errors, headers, responses\<close>

text \<open>
  The request-dispatch core of supa-edge (\<^verbatim>\<open>packages/framework/src\<close>): the router
  (\<^verbatim>\<open>router.ts\<close>), the onion composer (\<^verbatim>\<open>compose.ts\<close>), the request context
  (\<^verbatim>\<open>context.ts\<close>), the structured error (\<^verbatim>\<open>errors.ts\<close>) and the application
  (\<^verbatim>\<open>app.ts\<close>).

  A JavaScript value that is serialised with \<^verbatim>\<open>JSON.stringify\<close> is a \<open>json\<close> tree;
  the serialiser itself belongs to the platform and stays symbolic (a response body
  \<open>Stringified j\<close> is the text \<^verbatim>\<open>JSON.stringify(j)\<close>).
\<close>

datatype json =
    JNull
  | JBool bool
  | JNum int
  | JStr string
  | JArr "json list"
  | JObj "(string \<times> json) list"

text \<open>
  What a \<^verbatim>\<open>throw\<close> or a rejected promise carries. \<open>HttpError status message details\<close>
  is the class of \<^verbatim>\<open>errors.ts\<close> (\<open>details = None\<close> is \<^verbatim>\<open>undefined\<close>); \<open>Error m\<close>
  is any other instance of \<^verbatim>\<open>Error\<close> with message \<open>m\<close>; \<open>Thrown v\<close> is a thrown value
  that is not an \<^verbatim>\<open>Error\<close>.
\<close>

datatype error =
    HttpError int string "json option"
  | Error string
  | Thrown json

text \<open>
  A header list in the sense of the Fetch standard: names are stored lower-cased,
  \<^verbatim>\<open>set\<close> overwrites the first header of that name and removes the others, or
  appends when there is none.
\<close>

type_synonym headers = "(string \<times> string) list"

definition lower_char :: "char \<Rightarrow> char" where
  "lower_char c =
     (case map_of (zip ''ABCDEFGHIJKLMNOPQRSTUVWXYZ'' ''abcdefghijklmnopqrstuvwxyz'') c of
        None \<Rightarrow> c
      | Some l \<Rightarrow> l)"

definition upper_char :: "char \<Rightarrow> char" where
  "upper_char c =
     (case map_of (zip ''abcdefghijklmnopqrstuvwxyz'' ''ABCDEFGHIJKLMNOPQRSTUVWXYZ'') c of
        None \<Rightarrow> c
      | Some u \<Rightarrow> u)"

text \<open>\<^verbatim>\<open>String.prototype.toUpperCase\<close> and \<^verbatim>\<open>toLowerCase\<close> on ASCII text (HTTP
  methods and header names are ASCII tokens).\<close>

definition toUpperCase :: "string \<Rightarrow> string" where
  "toUpperCase s = map upper_char s"

definition toLowerCase :: "string \<Rightarrow> string" where
  "toLowerCase s = map lower_char s"

fun header_list_set :: "string \<Rightarrow> string \<Rightarrow> headers \<Rightarrow> headers" where
  "header_list_set n v [] = [(n, v)]"
| "header_list_set n v ((k, w) # h) =
     (if k = n then (n, v) # filter (\<lambda>(k', w'). k' \<noteq> n) h
      else (k, w) # header_list_set n v h)"

text \<open>
  A response: its status, its header list and its body (\<open>NoBody\<close> is the \<^verbatim>\<open>null\<close>
  body).
\<close>

datatype body = NoBody | Text string | Stringified json

record response =
  status :: int
  headers :: headers
  body :: body

text \<open>A settled promise of a response: \<open>Inl e\<close> is a rejection (or a synchronous throw,
  which \<^verbatim>\<open>dispatch\<close> turns into a rejection), \<open>Inr r\<close> a fulfilment.\<close>

type_synonym result = "error + response"

text \<open>
  What the code takes from the platform and cannot be read off the repository: which
  authority of a URL the platform accepts (and the host it makes of it), and the
  messages of the errors that the platform's constructors throw. \<open>InvalidURL ref\<close> is
  the \<^verbatim>\<open>TypeError\<close> of \<^verbatim>\<open>new URL(ref, base)\<close>, \<open>StatusOutOfRange st\<close> the
  \<^verbatim>\<open>RangeError\<close> and \<open>NullBodyStatus st\<close> the \<^verbatim>\<open>TypeError\<close> of
  \<^verbatim>\<open>new Response(body, {status: st})\<close>. All three are instances of \<^verbatim>\<open>Error\<close>.
\<close>

datatype platform_failure = InvalidURL string | StatusOutOfRange int | NullBodyStatus int

record platform =
  parse_host :: "string \<Rightarrow> string option"
  message_of :: "platform_failure \<Rightarrow> string"

text \<open>
  \<^verbatim>\<open>new Response(body, {status, headers})\<close> as the application itself calls it, with a
  status that it was handed: the constructor throws a \<^verbatim>\<open>RangeError\<close> for a status
  outside 200..599, and a \<^verbatim>\<open>TypeError\<close> for a body that is not \<^verbatim>\<open>null\<close> with a
  null-body status (101, 103, 204, 205, 304); otherwise the response holds a copy of
  the header list.
\<close>

definition null_body_status :: "int \<Rightarrow> bool" where
  "null_body_status st = (st = 101 \<or> st = 103 \<or> st = 204 \<or> st = 205 \<or> st = 304)"

definition new_Response :: "platform \<Rightarrow> body \<Rightarrow> int \<Rightarrow> headers \<Rightarrow> error + response" where
  "new_Response P b st hs =
     (if st < 200 \<or> 599 < st then Inl (Error (message_of P (StatusOutOfRange st)))
      else if b \<noteq> NoBody \<and> null_body_status st
        then Inl (Error (message_of P (NullBodyStatus st)))
        else Inr \<lparr>status = st, headers = hs, body = b\<rparr>)"

section \<open>Requests and the request context\<close>

text \<open>
  A parsed URL (\<^verbatim>\<open>new URL(request.url)\<close>). The pathname of a parsed URL is
  normalised by the platform: it starts with a slash and has no dot segment, question
  mark, hash or backslash. The fragment plays no part in routing and is left out.
\<close>

record url =
  protocol :: string
  host :: string
  pathname :: string
  search :: string

text \<open>
  A request. \<open>request_text\<close> is what reading the body as text gives, \<open>request_json\<close>
  what reading it with the platform's JSON parser gives (a rejection when the text is
  not JSON).
\<close>

record request =
  request_method :: string
  request_url :: url
  request_headers :: headers
  request_text :: string
  request_json :: "error + json"

text \<open>A promise object: its identity and what it settles to.\<close>

record 'a promise =
  promise_id :: nat
  settles :: "error + 'a"

text \<open>
  The mutable state one request owns: the fields of \<^verbatim>\<open>ContextImpl\<close> (\<open>url\<close> is
  \<^verbatim>\<open>ctx.url\<close>, the parse of \<^verbatim>\<open>request.url\<close> made by the constructor: the field is
  read-only but the \<^verbatim>\<open>URL\<close> object is not, and a middleware can rewrite its
  parts), the \<^verbatim>\<open>Headers\<close> objects allocated while the request is handled (\<open>hstore\<close>
  maps the address of a \<^verbatim>\<open>Headers\<close> object to its list, \<open>hnext\<close> is the next free
  address; \<open>responseHeaders\<close> is the address of the context's shared object), the
  number of reads of the underlying request body so far, and \<open>trace\<close>, the events
  that middleware and handlers emit to the outside (a log, an array they push to).
\<close>

record ctx =
  request :: request
  url :: url
  params :: "string \<rightharpoonup> string"
  responseHeaders :: nat
  hstore :: "nat \<Rightarrow> headers"
  hnext :: nat
  jsonCache :: "json promise option"
  textCache :: "string promise option"
  bodyReads :: nat
  trace :: "string list"

text \<open>\<^verbatim>\<open>new Headers(init)\<close>: a fresh object holding a copy of \<open>init\<close>.\<close>

definition new_Headers :: "headers \<Rightarrow> ctx \<Rightarrow> nat \<times> ctx" where
  "new_Headers init c =
     (hnext c, c\<lparr>hstore := (hstore c)(hnext c := init), hnext := Suc (hnext c)\<rparr>)"

text \<open>\<^verbatim>\<open>h.set(name, value)\<close> on the object at address \<open>a\<close>.\<close>

definition Headers_set :: "nat \<Rightarrow> string \<Rightarrow> string \<Rightarrow> ctx \<Rightarrow> ctx" where
  "Headers_set a n v c =
     c\<lparr>hstore := (hstore c)(a := header_list_set (toLowerCase n) v (hstore c a))\<rparr>"

text \<open>The constructor of \<^verbatim>\<open>ContextImpl\<close>, called without a second argument as the
  application does: the parsed URL, empty params, a fresh empty \<^verbatim>\<open>Headers\<close>, empty caches.\<close>

definition new_ContextImpl :: "request \<Rightarrow> ctx" where
  "new_ContextImpl req =
     \<lparr>request = req, url = request_url req, params = Map.empty, responseHeaders = 0,
      hstore = (\<lambda>a. []), hnext = 1,
      jsonCache = None, textCache = None, bodyReads = 0, trace = []\<rparr>"

section \<open>Middleware and the onion composer\<close>

text \<open>
  A middleware \<^verbatim>\<open>(ctx, next) => Response | Promise<Response>\<close> is modelled by what it
  does, step by step:
  \<^item> \<open>Done (Inr r)\<close> returns the response \<open>r\<close>, \<open>Done (Inl e)\<close> throws \<open>e\<close>;
  \<^item> \<open>Act f m\<close> changes the context (or the outside) by \<open>f\<close> and goes on as \<open>m\<close>;
  \<^item> \<open>Read g\<close> looks at the context and goes on as \<open>g c\<close>;
  \<^item> \<open>Next k\<close> calls \<^verbatim>\<open>next()\<close>, awaits it, and goes on as \<open>k r\<close> with the settled
    result \<open>r\<close> (so that \<open>k\<close> is also the \<^verbatim>\<open>catch\<close> branch).
  The cursor \<^verbatim>\<open>index\<close> of \<^verbatim>\<open>composed\<close> is a local variable of the closure: no step of a
  middleware can reach it. A handler \<^verbatim>\<open>(ctx) => Response\<close> has no \<^verbatim>\<open>next\<close>; it is a
  function from the context to its settled result and the context it leaves.
\<close>

datatype mw =
    Done result
  | Act "ctx \<Rightarrow> ctx" mw
  | Read "ctx \<Rightarrow> mw"
  | Next "result \<Rightarrow> mw"

type_synonym handler = "ctx \<Rightarrow> result \<times> ctx"

text \<open>The state of one call of \<^verbatim>\<open>composed\<close>: the cursor \<^verbatim>\<open>index\<close> and the context.\<close>

type_synonym dstate = "int \<times> ctx"

text \<open>Running the body of a middleware whose \<^verbatim>\<open>next\<close> is \<open>nxt\<close>.\<close>

primrec run_mw :: "(dstate \<Rightarrow> result \<times> dstate) \<Rightarrow> mw \<Rightarrow> dstate \<Rightarrow> result \<times> dstate" where
  "run_mw nxt (Done r) d = (r, d)"
| "run_mw nxt (Act f m) d = run_mw nxt m (fst d, f (snd d))"
| "run_mw nxt (Read g) d = run_mw nxt (g (snd d)) d"
| "run_mw nxt (Next k) d = (case nxt d of (r, d') \<Rightarrow> run_mw nxt (k r) d')"

definition multiple_next :: error where
  "multiple_next = Error ''next() called multiple times in the same middleware''"

text \<open>
  \<^verbatim>\<open>dispatch(i)\<close> of \<^verbatim>\<open>compose.ts\<close>. The \<^verbatim>\<open>try\<close>/\<^verbatim>\<open>catch\<close> and the
  \<^verbatim>\<open>Promise.resolve\<close> make a synchronous throw and a rejection the same result
  \<open>Inl e\<close>.
\<close>

function dispatch :: "mw list \<Rightarrow> handler \<Rightarrow> nat \<Rightarrow> dstate \<Rightarrow> result \<times> dstate" where
  "dispatch middlewares finalNext i d =
     (if int i \<le> fst d then (Inl multiple_next, d)
      else if i < length middlewares
        then run_mw (\<lambda>d'. dispatch middlewares finalNext (Suc i) d') (middlewares ! i)
               (int i, snd d)
        else (case finalNext (snd d) of (r, c') \<Rightarrow> (r, (int i, c'))))"
  by pat_completeness auto
termination
  by (relation "measure (\<lambda>(middlewares, finalNext, i, d). length middlewares - i)") auto

text \<open>\<^verbatim>\<open>compose(middlewares)\<close>: the composed middleware starts a fresh cursor at
  \<open>-1\<close> and dispatches index \<open>0\<close>.\<close>

definition compose :: "mw list \<Rightarrow> ctx \<Rightarrow> handler \<Rightarrow> result \<times> ctx" where
  "compose middlewares c finalNext =
     (case dispatch middlewares finalNext 0 (- 1, c) of (r, d) \<Rightarrow> (r, snd d))"

text \<open>
  The middleware of the repository's own test of the composer
  (\<^verbatim>\<open>compose_test.ts\<close>): \<^verbatim>\<open>async (ctx, next) => { before; const res = await next();
  after; return res; }\<close>. When \<^verbatim>\<open>next()\<close> rejects, the \<^verbatim>\<open>await\<close> throws and the
  part after it does not run. \<open>emit e\<close> is \<^verbatim>\<open>order.push(e)\<close>.
\<close>

definition emit :: "string \<Rightarrow> ctx \<Rightarrow> ctx" where
  "emit e c = c\<lparr>trace := trace c @ [e]\<rparr>"

definition around :: "(ctx \<Rightarrow> ctx) \<Rightarrow> (ctx \<Rightarrow> ctx) \<Rightarrow> mw" where
  "around before after =
     Act before
       (Next (\<lambda>r. case r of Inl e \<Rightarrow> Done (Inl e) | Inr res \<Rightarrow> Act after (Done (Inr res))))"

definition onion :: "string \<Rightarrow> mw" where
  "onion name = around (emit (name @ ''-before'')) (emit (name @ ''-after''))"

section \<open>The router\<close>

text \<open>
  A compiled \<^verbatim>\<open>URLPattern\<close> built from a pathname only: every other component is a
  wildcard, so \<^verbatim>\<open>pattern.exec(url)\<close> depends on the pathname of the URL alone. It
  gives \<open>None\<close> (\<^verbatim>\<open>null\<close>) or the entries of \<^verbatim>\<open>result.pathname.groups\<close>, where a
  group that took part in no match has the value \<open>None\<close> (\<^verbatim>\<open>undefined\<close>).
\<close>

type_synonym groups = "(string \<times> string option) list"

type_synonym matcher = "string \<Rightarrow> groups option"

record route =
  route_method :: string
  pattern :: matcher
  middlewares :: "mw list"
  handler :: handler

record router =
  routes :: "route list"
  router_basePath :: string

definition new_Router :: "string \<Rightarrow> router" where
  "new_Router basePath = \<lparr>routes = [], router_basePath = basePath\<rparr>"

text \<open>
  \<^verbatim>\<open>Router.add\<close>. The constructor \<^verbatim>\<open>URLPattern\<close> of the platform is a parameter. The
  variadic arguments are given apart: the middleware, then the handler that
  \<^verbatim>\<open>args.pop()\<close> takes.
\<close>

definition add ::
  "(string \<Rightarrow> matcher) \<Rightarrow> string \<Rightarrow> string \<Rightarrow> mw list \<Rightarrow> handler \<Rightarrow> router \<Rightarrow> router" where
  "add URLPattern method path mws h r =
     r\<lparr>routes := routes r @
        [\<lparr>route_method = toUpperCase method,
          pattern = URLPattern (router_basePath r @ path),
          middlewares = mws,
          handler = h\<rparr>]\<rparr>"

definition Router_get ::
  "(string \<Rightarrow> matcher) \<Rightarrow> string \<Rightarrow> mw list \<Rightarrow> handler \<Rightarrow> router \<Rightarrow> router" where
  "Router_get URLPattern path mws h r = add URLPattern ''GET'' path mws h r"

definition Router_post ::
  "(string \<Rightarrow> matcher) \<Rightarrow> string \<Rightarrow> mw list \<Rightarrow> handler \<Rightarrow> router \<Rightarrow> router" where
  "Router_post URLPattern path mws h r = add URLPattern ''POST'' path mws h r"

definition Router_put ::
  "(string \<Rightarrow> matcher) \<Rightarrow> string \<Rightarrow> mw list \<Rightarrow> handler \<Rightarrow> router \<Rightarrow> router" where
  "Router_put URLPattern path mws h r = add URLPattern ''PUT'' path mws h r"

definition Router_patch ::
  "(string \<Rightarrow> matcher) \<Rightarrow> string \<Rightarrow> mw list \<Rightarrow> handler \<Rightarrow> router \<Rightarrow> router" where
  "Router_patch URLPattern path mws h r = add URLPattern ''PATCH'' path mws h r"

definition Router_delete ::
  "(string \<Rightarrow> matcher) \<Rightarrow> string \<Rightarrow> mw list \<Rightarrow> handler \<Rightarrow> router \<Rightarrow> router" where
  "Router_delete URLPattern path mws h r = add URLPattern ''DELETE'' path mws h r"

text \<open>The loop over \<^verbatim>\<open>Object.entries(groups)\<close> that fills \<^verbatim>\<open>params\<close>.\<close>

fun collect_params :: "groups \<Rightarrow> (string \<rightharpoonup> string) \<Rightarrow> (string \<rightharpoonup> string)" where
  "collect_params [] ps = ps"
| "collect_params ((key, v) # rest) ps =
     (case v of
        None \<Rightarrow> collect_params rest ps
      | Some x \<Rightarrow> collect_params rest (ps(key \<mapsto> x)))"

text \<open>The loop of \<^verbatim>\<open>Router.match\<close> over the routes, in registration order.\<close>

fun match_routes ::
  "route list \<Rightarrow> string \<Rightarrow> url \<Rightarrow> (route \<times> (string \<rightharpoonup> string)) option" where
  "match_routes [] upperMethod u = None"
| "match_routes (r # rest) upperMethod u =
     (if route_method r \<noteq> upperMethod \<and> route_method r \<noteq> ''ALL'' \<and>
         \<not> (upperMethod = ''HEAD'' \<and> route_method r = ''GET'')
      then match_routes rest upperMethod u
      else (case pattern r (pathname u) of
              Some gs \<Rightarrow> Some (r, collect_params gs Map.empty)
            | None \<Rightarrow> match_routes rest upperMethod u))"

definition match ::
  "router \<Rightarrow> string \<Rightarrow> url \<Rightarrow> (route \<times> (string \<rightharpoonup> string)) option" where
  "match r method u = match_routes (routes r) (toUpperCase method) u"

subsection \<open>Path patterns with named segments\<close>

text \<open>
  The patterns of the repository's routes and tests are made of fixed segments and
  named segments \<^verbatim>\<open>:name\<close>. For these, the platform's \<^verbatim>\<open>URLPattern\<close> matches a
  pathname when it has the same number of segments, each fixed segment is equal, and
  each named segment is not empty (a named group matches one or more characters other
  than the slash); the groups are the named segments in the pattern's order.
  \<open>URLPattern_segments\<close> models the platform on this class of patterns, for the
  concrete examples; the theorems about the router hold for any matcher.
\<close>

fun split_slash :: "string \<Rightarrow> string \<Rightarrow> string list" where
  "split_slash cur [] = [rev cur]"
| "split_slash cur (c # cs) =
     (if c = CHR ''/'' then rev cur # split_slash [] cs else split_slash (c # cur) cs)"

datatype part = Fixed string | Named string

definition to_part :: "string \<Rightarrow> part" where
  "to_part seg = (case seg of [] \<Rightarrow> Fixed [] | c # cs \<Rightarrow> if c = CHR '':'' then Named cs else Fixed seg)"

fun match_parts :: "part list \<Rightarrow> string list \<Rightarrow> groups option" where
  "match_parts [] [] = Some []"
| "match_parts (Fixed t # ps) (s # ss) = (if s = t then match_parts ps ss else None)"
| "match_parts (Named n # ps) (s # ss) =
     (if s = [] then None
      else (case match_parts ps ss of None \<Rightarrow> None | Some g \<Rightarrow> Some ((n, Some s) # g)))"
| "match_parts [] (s # ss) = None"
| "match_parts (p # ps) [] = None"

definition URLPattern_segments :: "string \<Rightarrow> matcher" where
  "URLPattern_segments p path = match_parts (map to_part (split_slash [] p)) (split_slash [] path)"

section \<open>Context: body reads and the response builder\<close>

text \<open>
  \<^verbatim>\<open>ContextImpl.json\<close> and \<^verbatim>\<open>ContextImpl.text\<close>. A cache holds the promise, so it is
  set whether the read will succeed or not (a promise object is truthy).
  \<^verbatim>\<open>this.request.clone().json()\<close> is one read of the underlying body and makes a new
  promise; its identity is the number of reads made before it.
\<close>

definition ctx_json :: "ctx \<Rightarrow> json promise \<times> ctx" where
  "ctx_json c =
     (case jsonCache c of
        None \<Rightarrow>
          (let p = \<lparr>promise_id = bodyReads c, settles = request_json (request c)\<rparr>
           in (p, c\<lparr>jsonCache := Some p, bodyReads := Suc (bodyReads c)\<rparr>))
      | Some p \<Rightarrow> (p, c))"

definition ctx_text :: "ctx \<Rightarrow> string promise \<times> ctx" where
  "ctx_text c =
     (case textCache c of
        None \<Rightarrow>
          (let p = \<lparr>promise_id = bodyReads c, settles = Inr (request_text (request c))\<rparr>
           in (p, c\<lparr>textCache := Some p, bodyReads := Suc (bodyReads c)\<rparr>))
      | Some p \<Rightarrow> (p, c))"

text \<open>A sequence of body reads on one context, as successive middleware make them.\<close>

datatype body_read = AsJson | AsText

fun read_body :: "body_read \<Rightarrow> ctx \<Rightarrow> nat \<times> ctx" where
  "read_body AsJson c = (case ctx_json c of (p, c') \<Rightarrow> (promise_id p, c'))"
| "read_body AsText c = (case ctx_text c of (p, c') \<Rightarrow> (promise_id p, c'))"

fun read_bodies :: "body_read list \<Rightarrow> ctx \<Rightarrow> (body_read \<times> nat) list \<times> ctx" where
  "read_bodies [] c = ([], c)"
| "read_bodies (k # ks) c =
     (case read_body k c of (p, c') \<Rightarrow>
        (case read_bodies ks c' of (ps, c'') \<Rightarrow> ((k, p) # ps, c'')))"

text \<open>How many reads of the underlying body a sequence of reads adds: one for each
  kind of read that occurs in it and whose cache was empty.\<close>

definition fresh_reads :: "body_read list \<Rightarrow> ctx \<Rightarrow> nat" where
  "fresh_reads ks c =
     (if AsJson \<in> set ks \<and> jsonCache c = None then 1 else 0) +
     (if AsText \<in> set ks \<and> textCache c = None then 1 else 0)"

text \<open>
  The four operations of \<^verbatim>\<open>ctx.respond\<close>. A missing status argument (\<open>None\<close>) takes
  the default of the parameter. \<^verbatim>\<open>new Response(body, {status, headers})\<close> takes a copy
  of the header list. The operations are modelled for a status that the constructor
  accepts for the body of the operation: what they do to the headers comes before the
  constructor is called.
\<close>

definition respond_json :: "json \<Rightarrow> int option \<Rightarrow> ctx \<Rightarrow> response \<times> ctx" where
  "respond_json data st c =
     (case new_Headers (hstore c (responseHeaders c)) c of (h, c1) \<Rightarrow>
        (let c2 = Headers_set h ''Content-Type'' ''application/json'' c1
         in (\<lparr>status = (case st of None \<Rightarrow> 200 | Some n \<Rightarrow> n),
              headers = hstore c2 h, body = Stringified data\<rparr>, c2)))"

definition respond_text :: "string \<Rightarrow> int option \<Rightarrow> ctx \<Rightarrow> response \<times> ctx" where
  "respond_text data st c =
     (case new_Headers (hstore c (responseHeaders c)) c of (h, c1) \<Rightarrow>
        (let c2 = Headers_set h ''Content-Type'' ''text/plain; charset=utf-8'' c1
         in (\<lparr>status = (case st of None \<Rightarrow> 200 | Some n \<Rightarrow> n),
              headers = hstore c2 h, body = Text data\<rparr>, c2)))"

definition respond_empty :: "ctx \<Rightarrow> response \<times> ctx" where
  "respond_empty c =
     (case new_Headers (hstore c (responseHeaders c)) c of (h, c1) \<Rightarrow>
        (\<lparr>status = 204, headers = hstore c1 h, body = NoBody\<rparr>, c1))"

definition respond_redirect :: "string \<Rightarrow> int option \<Rightarrow> ctx \<Rightarrow> response \<times> ctx" where
  "respond_redirect location st c =
     (case new_Headers (hstore c (responseHeaders c)) c of (h, c1) \<Rightarrow>
        (let c2 = Headers_set h ''Location'' location c1
         in (\<lparr>status = (case st of None \<Rightarrow> 302 | Some n \<Rightarrow> n),
              headers = hstore c2 h, body = NoBody\<rparr>, c2)))"

text \<open>The operations as data, to speak of all of them at once.\<close>

datatype respond_op =
    RespondJson json "int option"
  | RespondText string "int option"
  | RespondEmpty
  | RespondRedirect string "int option"

fun respond :: "respond_op \<Rightarrow> ctx \<Rightarrow> response \<times> ctx" where
  "respond (RespondJson data st) c = respond_json data st c"
| "respond (RespondText data st) c = respond_text data st c"
| "respond RespondEmpty c = respond_empty c"
| "respond (RespondRedirect location st) c = respond_redirect location st c"

text \<open>The header an operation lays over the copy, if any.\<close>

fun content_header :: "respond_op \<Rightarrow> (string \<times> string) option" where
  "content_header (RespondJson data st) = Some (''Content-Type'', ''application/json'')"
| "content_header (RespondText data st) = Some (''Content-Type'', ''text/plain; charset=utf-8'')"
| "content_header RespondEmpty = None"
| "content_header (RespondRedirect location st) = Some (''Location'', location)"

text \<open>A header list with the header of an operation laid over it.\<close>

definition overlay :: "respond_op \<Rightarrow> headers \<Rightarrow> headers" where
  "overlay op h =
     (case content_header op of
        None \<Rightarrow> h
      | Some (n, v) \<Rightarrow> header_list_set (toLowerCase n) v h)"

section \<open>The application\<close>

text \<open>\<^verbatim>\<open>HttpError.toJSON\<close> and the factory \<^verbatim>\<open>HttpError.notFound\<close> with a message.\<close>

definition toJSON :: "int \<Rightarrow> string \<Rightarrow> json option \<Rightarrow> json" where
  "toJSON st message details =
     JObj ([(''error'', JStr message), (''status'', JNum st)] @
           (case details of None \<Rightarrow> [] | Some d \<Rightarrow> [(''details'', d)]))"

definition notFound :: "string \<Rightarrow> error" where
  "notFound message = HttpError 404 message None"

text \<open>\<^verbatim>\<open>AppOptions\<close>. A hook \<^verbatim>\<open>onError\<close> may change the context before it returns or
  throws.\<close>

record options =
  basePath :: "string option"
  onError :: "(error \<Rightarrow> ctx \<Rightarrow> result \<times> ctx) option"

record app =
  globalMiddlewares :: "mw list"
  router :: router
  options :: options

definition new_SupaEdgeApp :: "options \<Rightarrow> app" where
  "new_SupaEdgeApp opts =
     \<lparr>globalMiddlewares = [],
      router = new_Router (case basePath opts of None \<Rightarrow> [] | Some b \<Rightarrow> b),
      options = opts\<rparr>"

definition app_use :: "mw \<Rightarrow> app \<Rightarrow> app" where
  "app_use m a = a\<lparr>globalMiddlewares := globalMiddlewares a @ [m]\<rparr>"

definition app_get :: "(string \<Rightarrow> matcher) \<Rightarrow> string \<Rightarrow> mw list \<Rightarrow> handler \<Rightarrow> app \<Rightarrow> app" where
  "app_get URLPattern path mws h a = a\<lparr>router := Router_get URLPattern path mws h (router a)\<rparr>"

definition app_post :: "(string \<Rightarrow> matcher) \<Rightarrow> string \<Rightarrow> mw list \<Rightarrow> handler \<Rightarrow> app \<Rightarrow> app" where
  "app_post URLPattern path mws h a = a\<lparr>router := Router_post URLPattern path mws h (router a)\<rparr>"

definition app_put :: "(string \<Rightarrow> matcher) \<Rightarrow> string \<Rightarrow> mw list \<Rightarrow> handler \<Rightarrow> app \<Rightarrow> app" where
  "app_put URLPattern path mws h a = a\<lparr>router := Router_put URLPattern path mws h (router a)\<rparr>"

definition app_patch :: "(string \<Rightarrow> matcher) \<Rightarrow> string \<Rightarrow> mw list \<Rightarrow> handler \<Rightarrow> app \<Rightarrow> app" where
  "app_patch URLPattern path mws h a = a\<lparr>router := Router_patch URLPattern path mws h (router a)\<rparr>"

definition app_delete :: "(string \<Rightarrow> matcher) \<Rightarrow> string \<Rightarrow> mw list \<Rightarrow> handler \<Rightarrow> app \<Rightarrow> app" where
  "app_delete URLPattern path mws h a = a\<lparr>router := Router_delete URLPattern path mws h (router a)\<rparr>"

subsection \<open>Resolving the effective URL\<close>

text \<open>The regular expression \<^verbatim>\<open>/^\/functions\/v1\/[^/]+/\<close> on a pathname: the matched
  text \<^verbatim>\<open>match[0]\<close>, or \<open>None\<close>.\<close>

definition function_prefix :: "string \<Rightarrow> string option" where
  "function_prefix path =
     (let lit = ''/functions/v1/'' in
      if take (length lit) path = lit
      then (let name = takeWhile (\<lambda>c. c \<noteq> CHR ''/'') (drop (length lit) path)
            in if name = [] then None else Some (lit @ name))
      else None)"

text \<open>
  \<^verbatim>\<open>new URL(stripped, url.origin)\<close>, where \<open>stripped\<close> is a piece of a normalised
  pathname that starts with a slash. The platform resolves it as a relative reference
  against the origin. A reference that starts with two slashes is scheme-relative: after
  the two slashes comes an authority, up to the next slash, and only what follows is the
  path (\<^verbatim>\<open>new URL("//a/b", "http://localhost")\<close> is \<^verbatim>\<open>http://a/b\<close>). The
  constructor throws a \<^verbatim>\<open>TypeError\<close> when the authority is empty (a third slash
  follows, or nothing) and when the platform's parser \<open>parse_host\<close> refuses it. Any
  other reference is an absolute path on the same origin, with an empty query.
\<close>

definition new_URL :: "platform \<Rightarrow> string \<Rightarrow> url \<Rightarrow> error + url" where
  "new_URL P ref base =
     (if take 2 ref = ''//''
      then (let after = drop 2 ref;
                authority = takeWhile (\<lambda>c. c \<noteq> CHR ''/'') after;
                path = dropWhile (\<lambda>c. c \<noteq> CHR ''/'') after
            in if authority = [] then Inl (Error (message_of P (InvalidURL ref)))
               else (case parse_host P authority of
                       None \<Rightarrow> Inl (Error (message_of P (InvalidURL ref)))
                     | Some h \<Rightarrow>
                         Inr \<lparr>protocol = protocol base, host = h,
                              pathname = (if path = [] then ''/'' else path), search = []\<rparr>))
      else Inr \<lparr>protocol = protocol base, host = host base, pathname = ref, search = []\<rparr>)"

text \<open>
  \<^verbatim>\<open>SupaEdgeApp.resolveUrl\<close>. The test \<^verbatim>\<open>if (this.options.basePath)\<close> is on the
  truthiness of an optional string: it fails for \<^verbatim>\<open>undefined\<close> and for the empty
  string. The result is the URL that the router will parse again.
\<close>

definition resolveUrl :: "platform \<Rightarrow> options \<Rightarrow> request \<Rightarrow> error + url" where
  "resolveUrl P opts req =
     (if (case basePath opts of None \<Rightarrow> False | Some b \<Rightarrow> b \<noteq> [])
      then Inr (request_url req)
      else (let u = request_url req in
            case function_prefix (pathname u) of
              Some m \<Rightarrow>
                (let rest = drop (length m) (pathname u);
                     stripped = (if rest = [] then ''/'' else rest)
                 in (case new_URL P stripped u of
                       Inl e \<Rightarrow> Inl e
                     | Inr rewritten \<Rightarrow> Inr (rewritten\<lparr>search := search u\<rparr>)))
            | None \<Rightarrow> Inr (request_url req)))"

subsection \<open>Errors to responses\<close>

text \<open>The default handling of \<^verbatim>\<open>SupaEdgeApp.handleError\<close>, after the hook if any. It
  throws when the constructor of the response does.\<close>

definition default_error :: "platform \<Rightarrow> error \<Rightarrow> ctx \<Rightarrow> error + response" where
  "default_error P err c =
     (case new_Headers (hstore c (responseHeaders c)) c of (h, c1) \<Rightarrow>
        (let c2 = Headers_set h ''Content-Type'' ''application/json'' c1 in
         case err of
           HttpError st message details \<Rightarrow>
             new_Response P (Stringified (toJSON st message details)) st (hstore c2 h)
         | _ \<Rightarrow>
             (let message = (case err of Error m \<Rightarrow> m | _ \<Rightarrow> ''Internal Server Error'')
              in new_Response P
                   (Stringified (JObj [(''error'', JStr message), (''status'', JNum 500)]))
                   500 (hstore c2 h))))"

text \<open>\<^verbatim>\<open>SupaEdgeApp.handleError\<close>: \<open>Inr\<close> is the response it returns, \<open>Inl\<close> what it
  throws.\<close>

definition handleError :: "platform \<Rightarrow> options \<Rightarrow> error \<Rightarrow> ctx \<Rightarrow> error + response" where
  "handleError P opts err c =
     (case onError opts of
        None \<Rightarrow> default_error P err c
      | Some hook \<Rightarrow>
          (case hook err c of
             (Inr res, c') \<Rightarrow> Inr res
           | (Inl e', c') \<Rightarrow> default_error P err c'))"

subsection \<open>Handling one request\<close>

text \<open>The message of the not-found error, from \<^verbatim>\<open>request.method\<close> and
  \<^verbatim>\<open>ctx.url.pathname\<close>.\<close>

definition not_found_message :: "string \<Rightarrow> string \<Rightarrow> string" where
  "not_found_message method path = ''No route matched: '' @ method @ '' '' @ path"

text \<open>
  The \<^verbatim>\<open>try\<close> block of \<^verbatim>\<open>SupaEdgeApp.handler\<close>: how the awaited chain settles, and
  the context it leaves. The terminal continuation of an unmatched request reads
  \<^verbatim>\<open>ctx.url.pathname\<close> when it runs.
\<close>

definition try_dispatch :: "platform \<Rightarrow> app \<Rightarrow> request \<Rightarrow> ctx \<Rightarrow> result \<times> ctx" where
  "try_dispatch P a req c =
     (case resolveUrl P (options a) req of
        Inl e \<Rightarrow> (Inl e, c)
      | Inr effectiveUrl \<Rightarrow>
          (case match (router a) (request_method req) effectiveUrl of
             None \<Rightarrow>
               compose (globalMiddlewares a) c
                 (\<lambda>c'. (Inl (notFound (not_found_message (request_method req)
                                         (pathname (url c')))), c'))
           | Some (r, ps) \<Rightarrow>
               compose (globalMiddlewares a @ middlewares r) (c\<lparr>params := ps\<rparr>) (handler r)))"

text \<open>
  \<^verbatim>\<open>SupaEdgeApp.handler\<close>: \<open>Inr\<close> is the response to the request; \<open>Inl\<close> is the
  rejection of the promise, when \<^verbatim>\<open>handleError\<close> or the constructor of the body-less
  copy for a HEAD request throws.
\<close>

definition app_handler :: "platform \<Rightarrow> app \<Rightarrow> request \<Rightarrow> error + response" where
  "app_handler P a req =
     (let c = new_ContextImpl req;
          response = (case try_dispatch P a req c of
                        (Inr r, c') \<Rightarrow> Inr r
                      | (Inl e, c') \<Rightarrow> handleError P (options a) e c')
      in case response of
           Inl e \<Rightarrow> Inl e
         | Inr res \<Rightarrow>
             if request_method req = ''HEAD''
             then new_Response P NoBody (status res) (headers res)
             else Inr res)"

section \<open>The error response in the words of the specification\<close>

text \<open>
  Section 4.5 of the specification: a structured error is serialised as
  \<^verbatim>\<open>{error: message, status: statusCode, details?: details}\<close> with that status code;
  any other thrown value as \<^verbatim>\<open>{error: message or generic fallback, status: 500}\<close>
  with status 500.
\<close>

fun spec_error_status :: "error \<Rightarrow> int" where
  "spec_error_status (HttpError st message details) = st"
| "spec_error_status (Error message) = 500"
| "spec_error_status (Thrown v) = 500"

fun spec_error_body :: "error \<Rightarrow> json" where
  "spec_error_body (HttpError st message None) =
     JObj [(''error'', JStr message), (''status'', JNum st)]"
| "spec_error_body (HttpError st message (Some details)) =
     JObj [(''error'', JStr message), (''status'', JNum st), (''details'', details)]"
| "spec_error_body (Error message) =
     JObj [(''error'', JStr message), (''status'', JNum 500)]"
| "spec_error_body (Thrown v) =
     JObj [(''error'', JStr ''Internal Server Error''), (''status'', JNum 500)]"

text \<open>The statuses that the platform accepts for a response with a body.\<close>

definition status_with_body :: "int \<Rightarrow> bool" where
  "status_with_body st = (200 \<le> st \<and> st \<le> 599 \<and> st \<noteq> 204 \<and> st \<noteq> 205 \<and> st \<noteq> 304)"

section \<open>Chains that do the same for HEAD and for GET\<close>

text \<open>
  \<^verbatim>\<open>ctx.method\<close> is \<^verbatim>\<open>request.method\<close>, so a middleware or a handler can tell a HEAD
  request from a GET request. \<open>as_method m c\<close> is the context \<open>c\<close> of the same request
  sent with the method \<open>m\<close>. \<open>head_get c c'\<close> relates the context \<open>c\<close> of a HEAD
  request to a context \<open>c'\<close> of the same request sent with GET: they agree on
  everything but the method and what has been emitted to the outside (a logger writes
  the method). A middleware does the same for HEAD and for GET when, with
  continuations \<^verbatim>\<open>next\<close> that settle alike and leave related contexts, it settles alike
  and leaves related contexts; likewise a handler.
\<close>

definition as_method :: "string \<Rightarrow> ctx \<Rightarrow> ctx" where
  "as_method m c = c\<lparr>request := (request c)\<lparr>request_method := m\<rparr>\<rparr>"

definition head_get :: "ctx \<Rightarrow> ctx \<Rightarrow> bool" where
  "head_get c c' =
     (request_method (request c) = ''HEAD'' \<and>
      c'\<lparr>trace := []\<rparr> = (as_method ''GET'' c)\<lparr>trace := []\<rparr>)"

definition rel_out :: "result \<times> dstate \<Rightarrow> result \<times> dstate \<Rightarrow> bool" where
  "rel_out x y =
     (fst x = fst y \<and> fst (snd x) = fst (snd y) \<and> head_get (snd (snd x)) (snd (snd y)))"

definition mw_head_get :: "mw \<Rightarrow> bool" where
  "mw_head_get p =
     (\<forall>nxt nxt' i c c'.
        (\<forall>j e e'. head_get e e' \<longrightarrow> rel_out (nxt (j, e)) (nxt' (j, e'))) \<and> head_get c c' \<longrightarrow>
        rel_out (run_mw nxt p (i, c)) (run_mw nxt' p (i, c')))"

definition handler_head_get :: "handler \<Rightarrow> bool" where
  "handler_head_get h =
     (\<forall>c c'. head_get c c' \<longrightarrow> fst (h c) = fst (h c') \<and> head_get (snd (h c)) (snd (h c')))"

section \<open>Concrete inputs\<close>

text \<open>The requests and the response of the repository's tests:
  \<^verbatim>\<open>new Request("http://localhost" + path, {method})\<close> with no body, and
  \<^verbatim>\<open>new Response("ok")\<close>.\<close>

definition localhost :: "string \<Rightarrow> url" where
  "localhost path = \<lparr>protocol = ''http:'', host = ''localhost'', pathname = path, search = []\<rparr>"

definition Request :: "string \<Rightarrow> string \<Rightarrow> request" where
  "Request method path =
     \<lparr>request_method = method, request_url = localhost path, request_headers = [],
      request_text = [], request_json = Inl (Error ''Unexpected end of JSON input'')\<rparr>"

definition ok :: response where
  "ok = \<lparr>status = 200, headers = [(''content-type'', ''text/plain;charset=UTF-8'')],
         body = Text ''ok''\<rparr>"

text \<open>The router of the repository's test "extracts path params":
  \<^verbatim>\<open>router.get("/users/:id", handler)\<close> on a router with no base path.\<close>

definition users_route :: route where
  "users_route =
     \<lparr>route_method = ''GET'', pattern = URLPattern_segments ''/users/:id'',
      middlewares = [], handler = (\<lambda>c. (Inr ok, c))\<rparr>"

definition users_router :: router where
  "users_router =
     Router_get URLPattern_segments ''/users/:id'' [] (\<lambda>c. (Inr ok, c)) (new_Router [])"

text \<open>A handler that returns what a response builder gives,
  \<^verbatim>\<open>(ctx) => ctx.respond.text("hi")\<close>, and the step
  \<^verbatim>\<open>ctx.responseHeaders.set(n, v)\<close> of a middleware.\<close>

definition returns :: "(ctx \<Rightarrow> response \<times> ctx) \<Rightarrow> handler" where
  "returns f c = (case f c of (r, c') \<Rightarrow> (Inr r, c'))"

definition set_header :: "string \<Rightarrow> string \<Rightarrow> ctx \<Rightarrow> ctx" where
  "set_header n v c = Headers_set (responseHeaders c) n v c"

definition no_options :: options where
  "no_options = \<lparr>basePath = None, onError = None\<rparr>"


definition hello_app :: app where
  "hello_app =
     app_get URLPattern_segments ''/hello'' [] (returns (respond_text ''hi'' None))
       (app_use (around (set_header ''X-Custom'' ''middleware'') id)
          (new_SupaEdgeApp no_options))"

text \<open>A router with one route registered for HEAD through \<^verbatim>\<open>Router.add\<close>; an
  application whose handler answers by \<^verbatim>\<open>ctx.method\<close>; an application with a route
  for the root path.\<close>

definition head_router :: router where
  "head_router =
     add URLPattern_segments ''HEAD'' ''/x'' [] (\<lambda>c. (Inr ok, c)) (new_Router [])"

definition method_app :: app where
  "method_app =
     app_get URLPattern_segments ''/m'' []
       (\<lambda>c. if request_method (request c) = ''GET''
             then returns (respond_text ''ok'' None) c
             else returns (respond_text ''GET only'' (Some 405)) c)
       (new_SupaEdgeApp no_options)"

definition root_app :: app where
  "root_app =
     app_get URLPattern_segments ''/'' [] (returns (respond_text ''root'' None))
       (new_SupaEdgeApp no_options)"

text \<open>A platform that accepts every authority as it is written; its messages stand
  for those of the runtime.\<close>

definition web :: platform where
  "web =
     \<lparr>parse_host = (\<lambda>authority. Some authority),
      message_of = (\<lambda>f. case f of
          InvalidURL ref \<Rightarrow> ''Invalid URL''
        | StatusOutOfRange st \<Rightarrow> ''The status provided is outside the range [200, 599]''
        | NullBodyStatus st \<Rightarrow> ''Response with null body status cannot have body'')\<rparr>"


definition rewrite_app :: app where
  "rewrite_app =
     app_use (around (\<lambda>c. c\<lparr>url := (url c)\<lparr>pathname := ''/rewritten''\<rparr>\<rparr>) id)
       (new_SupaEdgeApp no_options)"

text \<open>
  The middleware \<^verbatim>\<open>cors()\<close> with its default options: it sets
  \<^verbatim>\<open>Access-Control-Allow-Origin: *\<close> on the shared headers, answers an OPTIONS
  request itself with status 204 and the preflight headers on a copy, and otherwise
  awaits \<^verbatim>\<open>next()\<close>. The middleware \<^verbatim>\<open>logger()\<close>: it reads the method and the
  pathname, awaits \<^verbatim>\<open>next()\<close>, and writes a line with them to the console before it
  returns the response or throws the error again (the status and the elapsed time of
  the line are left out).
\<close>

definition cors :: mw where
  "cors =
     Act (\<lambda>c. Headers_set (responseHeaders c) ''Access-Control-Allow-Origin'' ''*'' c)
       (Read (\<lambda>c. if request_method (request c) = ''OPTIONS''
                  then (case new_Headers (hstore c (responseHeaders c)) c of (h, c1) \<Rightarrow>
                          (let c2 = Headers_set h ''Access-Control-Allow-Methods''
                                      ''GET, POST, PUT, PATCH, DELETE, OPTIONS'' c1;
                               c3 = Headers_set h ''Access-Control-Allow-Headers''
                                      ''Authorization, X-Client-Info, Content-Type, Accept, apikey''
                                      c2;
                               c4 = Headers_set h ''Access-Control-Max-Age'' ''86400'' c3
                           in Act (\<lambda>x. c4)
                                (Done (Inr \<lparr>status = 204, headers = hstore c4 h,
                                            body = NoBody\<rparr>))))
                  else Next Done))"

definition logger :: mw where
  "logger =
     Read (\<lambda>c. Next (\<lambda>r.
       case r of
         Inl err \<Rightarrow>
           Act (emit (''[supa-edge] '' @ request_method (request c) @ '' '' @
                        pathname (url c) @ '' ERR''))
             (Done (Inl err))
       | Inr response \<Rightarrow>
           Act (emit (''[supa-edge] '' @ request_method (request c) @ '' '' @
                        pathname (url c)))
             (Done (Inr response))))"

definition cors_app :: app where
  "cors_app =
     app_get URLPattern_segments ''/hello'' [] (returns (respond_text ''hi'' None))
       (app_use logger (app_use cors (new_SupaEdgeApp no_options)))"

section \<open>Properties of the composer\<close>

declare dispatch.simps [simp del]

lemma dispatch_reject:
  "int i \<le> fst d \<Longrightarrow> dispatch ms fin i d = (Inl multiple_next, d)"
  by (subst dispatch.simps) simp

lemma dispatch_final:
  "fst d < int i \<Longrightarrow> length ms \<le> i \<Longrightarrow>
   dispatch ms fin i d = (case fin (snd d) of (r, c') \<Rightarrow> (r, (int i, c')))"
  by (subst dispatch.simps) simp

lemma dispatch_step:
  "fst d < int i \<Longrightarrow> i < length ms \<Longrightarrow>
   dispatch ms fin i d = run_mw (dispatch ms fin (Suc i)) (ms ! i) (int i, snd d)"
  by (subst dispatch.simps) simp

text \<open>The cursor never goes down: not in the body of a middleware whose \<^verbatim>\<open>next\<close> does
  not lower it, and so not in \<^verbatim>\<open>dispatch\<close>, which also leaves it at its index or
  above.\<close>

lemma run_mw_mono:
  assumes "\<And>d. fst d \<le> fst (snd (nxt d))"
  shows "fst d \<le> fst (snd (run_mw nxt p d))"
proof (induction p arbitrary: d)
  case (Next k)
  obtain r d' where nd: "nxt d = (r, d')" by (cases "nxt d")
  have "fst d \<le> fst d'" using assms[of d] nd by simp
  also have "\<dots> \<le> fst (snd (run_mw nxt (k r) d'))" using Next by blast
  finally show ?case using nd by simp
next
  case (Act f m)
  from Act[of "(fst d, f (snd d))"] show ?case by simp
qed simp_all

lemma dispatch_index:
  "fst d \<le> fst (snd (dispatch ms fin i d)) \<and> int i \<le> fst (snd (dispatch ms fin i d))"
proof (induction ms fin i d rule: dispatch.induct)
  case (1 ms fin i d)
  show ?case
  proof (cases "int i \<le> fst d")
    case True
    then show ?thesis by (simp add: dispatch_reject)
  next
    case False
    show ?thesis
    proof (cases "i < length ms")
      case True
      have mono: "\<And>x. fst x \<le> fst (snd (dispatch ms fin (Suc i) x))"
        using 1[OF False True] by blast
      have "int i \<le> fst (snd (run_mw (dispatch ms fin (Suc i)) (ms ! i) (int i, snd d)))"
        using run_mw_mono[of "dispatch ms fin (Suc i)" "(int i, snd d)" "ms ! i", OF mono]
        by simp
      with False True show ?thesis by (simp add: dispatch_step)
    next
      case last: False
      with False show ?thesis by (simp add: dispatch_final split: prod.splits)
    qed
  qed
qed

text \<open>Once the cursor has reached \<open>j\<close>, the continuation \<^verbatim>\<open>() => dispatch(j)\<close> is spent:
  whatever the rest of the frame does, each call of it is rejected.\<close>

lemma run_mw_spent:
  "int j \<le> fst d \<Longrightarrow>
   run_mw (dispatch ms fin j) p d = run_mw (\<lambda>t. (Inl multiple_next, t)) p d"
proof (induction p arbitrary: d)
  case (Next k)
  then show ?case by (simp add: dispatch_reject)
qed simp_all

lemma run_mw_around:
  "run_mw nxt (around before after) d =
     (case nxt (fst d, before (snd d)) of
        (Inl e, d') \<Rightarrow> (Inl e, d')
      | (Inr res, d') \<Rightarrow> (Inr res, (fst d', after (snd d'))))"
  by (simp add: around_def split: prod.splits sum.splits)

lemma drop_nth_Suc: "i < length xs \<Longrightarrow> drop i xs = xs ! i # drop (Suc i) xs"
  by (simp add: Cons_nth_drop_Suc)

text \<open>
  A chain of middleware of the shape \<open>around before after\<close>, from index \<open>i\<close> on: the
  parts before \<^verbatim>\<open>next()\<close> run in the order of the list, then the terminal
  continuation, then (when it fulfils) the parts after \<^verbatim>\<open>next()\<close> in reverse order;
  a rejection passes through every frame and no part after \<^verbatim>\<open>next()\<close> runs.
\<close>

lemma dispatch_around:
  "i \<le> length layers \<Longrightarrow> fst d < int i \<Longrightarrow>
   dispatch (map (\<lambda>l. around (fst l) (snd l)) layers) fin i d =
     (case fin (fold fst (drop i layers) (snd d)) of
        (Inl e, c') \<Rightarrow> (Inl e, (int (length layers), c'))
      | (Inr res, c') \<Rightarrow>
          (Inr res, (int (length layers), fold snd (rev (drop i layers)) c')))"
proof (induction "length layers - i" arbitrary: i d)
  case 0
  then have "i = length layers" by simp
  with 0 show ?case by (simp add: dispatch_final split: prod.splits sum.splits)
next
  case (Suc n)
  let ?M = "map (\<lambda>l. around (fst l) (snd l)) layers"
  from Suc have lt: "i < length layers" by simp
  have IH: "dispatch ?M fin (Suc i) (int i, fst (layers ! i) (snd d)) =
     (case fin (fold fst (drop (Suc i) layers) (fst (layers ! i) (snd d))) of
        (Inl e, c') \<Rightarrow> (Inl e, (int (length layers), c'))
      | (Inr res, c') \<Rightarrow>
          (Inr res, (int (length layers), fold snd (rev (drop (Suc i) layers)) c')))"
    using Suc(1)[of "Suc i" "(int i, fst (layers ! i) (snd d))"] Suc(2) lt by simp
  have "dispatch ?M fin i d =
          run_mw (dispatch ?M fin (Suc i))
            (around (fst (layers ! i)) (snd (layers ! i))) (int i, snd d)"
    using lt Suc(4) by (simp add: dispatch_step)
  also have "\<dots> = (case fin (fold fst (drop i layers) (snd d)) of
        (Inl e, c') \<Rightarrow> (Inl e, (int (length layers), c'))
      | (Inr res, c') \<Rightarrow>
          (Inr res, (int (length layers), fold snd (rev (drop i layers)) c')))"
    using lt by (simp add: run_mw_around IH drop_nth_Suc split: prod.splits sum.splits)
  finally show ?case .
qed

lemma compose_around:
  "compose (map (\<lambda>l. around (fst l) (snd l)) layers) c fin =
     (case fin (fold fst layers c) of
        (Inl e, c') \<Rightarrow> (Inl e, c')
      | (Inr res, c') \<Rightarrow> (Inr res, fold snd (rev layers) c'))"
  using dispatch_around[of 0 layers "(- 1, c)" fin]
  by (simp add: compose_def split: prod.splits sum.splits)

lemma fold_befores:
  "fold fst (map (\<lambda>n. (emit (f n), emit (g n))) xs) c = c\<lparr>trace := trace c @ map f xs\<rparr>"
  by (induction xs arbitrary: c) (simp_all add: emit_def)

lemma fold_afters:
  "fold snd (map (\<lambda>n. (emit (f n), emit (g n))) xs) c = c\<lparr>trace := trace c @ map g xs\<rparr>"
  by (induction xs arbitrary: c) (simp_all add: emit_def)

text \<open>
  Claim C1. In a chain composed of any list of middleware of the shape
  \<open>around before after\<close>, the parts before \<^verbatim>\<open>next()\<close> take effect in registration
  order, then the terminal continuation, then, when it fulfils, the parts after
  \<^verbatim>\<open>next()\<close> in reverse registration order (when it rejects, the rejection is the
  result and no part after \<^verbatim>\<open>next()\<close> runs). For onion middleware named in
  registration order and a terminal handler that emits \<open>h\<close> and fulfils, the events
  are the \<open>-before\<close> events in registration order, then \<open>h\<close>, then the \<open>-after\<close>
  events in reverse registration order, and nothing else of the context changes: for
  the names \<open>A\<close>, \<open>B\<close> and the handler event \<open>H\<close> this is A-before, B-before, H,
  B-after, A-after.
\<close>

theorem onion_order:
  "compose (map (\<lambda>l. around (fst l) (snd l)) layers) c fin =
     (case fin (fold fst layers c) of
        (Inl e, c') \<Rightarrow> (Inl e, c')
      | (Inr res, c') \<Rightarrow> (Inr res, fold snd (rev layers) c')) \<and>
   compose (map onion names) c (\<lambda>c'. (Inr res, emit h c')) =
     (Inr res,
      c\<lparr>trace := trace c @ map (\<lambda>n. n @ ''-before'') names @ [h] @
                  map (\<lambda>n. n @ ''-after'') (rev names)\<rparr>)"
proof -
  let ?layers = "map (\<lambda>n. (emit (n @ ''-before''), emit (n @ ''-after''))) names"
  have m: "map onion names = map (\<lambda>l. around (fst l) (snd l)) ?layers"
    by (simp add: onion_def)
  have "compose (map onion names) c (\<lambda>c'. (Inr res, emit h c')) =
     (Inr res,
      c\<lparr>trace := trace c @ map (\<lambda>n. n @ ''-before'') names @ [h] @
                  map (\<lambda>n. n @ ''-after'') (rev names)\<rparr>)"
    unfolding m compose_around
    by (simp add: fold_befores fold_afters rev_map emit_def)
  then show ?thesis by (simp add: compose_around)
qed

theorem onion_order_witness:
  "trace (snd (compose [onion ''A'', onion ''B''] (new_ContextImpl (Request ''GET'' ''/''))
                 (\<lambda>c'. (Inr ok, emit ''H'' c')))) =
     [''A-before'', ''B-before'', ''H'', ''B-after'', ''A-after'']"
  using onion_order[of "[]" "new_ContextImpl (Request ''GET'' ''/'')" "\<lambda>c'. (Inr ok, c')"
      "[''A'', ''B'']" ok "''H''"]
  by (simp add: new_ContextImpl_def)

text \<open>
  Claim C2. In any chain, at any index \<open>j\<close> and in any state, a frame whose
  \<^verbatim>\<open>next\<close> is \<^verbatim>\<open>() => dispatch(j)\<close> and that calls it: the first call runs
  \<^verbatim>\<open>dispatch(j)\<close>; in all that the frame does afterwards, every further call of
  \<^verbatim>\<open>next()\<close> is rejected with the error "next() called multiple times in the same
  middleware" and changes nothing. For \<^verbatim>\<open>dispatch\<close> rejects, without any change, every
  index that is not above the cursor, and the cursor is the highest index dispatched
  so far: a call of \<^verbatim>\<open>dispatch(j)\<close> never lowers it and leaves it at \<open>j\<close> or above.
\<close>

theorem second_next_rejected:
  "run_mw (dispatch ms fin j) (Next k) d =
     (case dispatch ms fin j d of
        (r, d') \<Rightarrow> run_mw (\<lambda>t. (Inl multiple_next, t)) (k r) d') \<and>
   (int j \<le> fst d \<longrightarrow> dispatch ms fin j d = (Inl multiple_next, d)) \<and>
   fst d \<le> fst (snd (dispatch ms fin j d)) \<and>
   int j \<le> fst (snd (dispatch ms fin j d))"
proof -
  obtain r d' where nd: "dispatch ms fin j d = (r, d')"
    by (cases "dispatch ms fin j d")
  have "int j \<le> fst d'" using dispatch_index[of d ms fin j] nd by simp
  then have "run_mw (dispatch ms fin j) (Next k) d =
     (case dispatch ms fin j d of
        (r, d') \<Rightarrow> run_mw (\<lambda>t. (Inl multiple_next, t)) (k r) d')"
    using nd by (simp add: run_mw_spent)
  then show ?thesis
    using dispatch_index[of d ms fin j] by (simp add: dispatch_reject)
qed

text \<open>The middleware of the repository's test "throws on double next() call",
  \<^verbatim>\<open>async (_ctx, next) => { await next(); return await next(); }\<close>, alone in a chain.\<close>

theorem second_next_rejected_witness:
  "compose [Next (\<lambda>r1. case r1 of Inl e \<Rightarrow> Done (Inl e) | Inr x \<Rightarrow> Next (\<lambda>r2. Done r2))]
       (new_ContextImpl (Request ''GET'' ''/'')) (\<lambda>c. (Inr ok, c)) =
     (Inl (Error ''next() called multiple times in the same middleware''),
      new_ContextImpl (Request ''GET'' ''/''))"
  using second_next_rejected[of
      "[Next (\<lambda>r1. case r1 of Inl e \<Rightarrow> Done (Inl e) | Inr x \<Rightarrow> Next (\<lambda>r2. Done r2))]"
      "\<lambda>c. (Inr ok, c)" 1
      "\<lambda>r1. case r1 of Inl e \<Rightarrow> Done (Inl e) | Inr x \<Rightarrow> Next (\<lambda>r2. Done r2)"
      "(0, new_ContextImpl (Request ''GET'' ''/''))"]
  by (simp add: compose_def dispatch_step dispatch_final multiple_next_def)

section \<open>Properties of the router\<close>

lemma toUpperCase_GET [simp]: "toUpperCase ''GET'' = ''GET''"
  by (simp add: toUpperCase_def upper_char_def)

lemma toUpperCase_HEAD [simp]: "toUpperCase ''HEAD'' = ''HEAD''"
  by (simp add: toUpperCase_def upper_char_def)

lemma collect_params_Some:
  "collect_params gs ps k = Some v \<Longrightarrow> (k, Some v) \<in> set gs \<or> ps k = Some v"
  by (induction gs ps rule: collect_params.induct) (auto split: option.splits if_splits)

lemma collect_params_None:
  "\<forall>v. (k, Some v) \<notin> set gs \<Longrightarrow> collect_params gs ps k = ps k"
  by (induction gs ps rule: collect_params.induct) (auto split: option.splits)

lemma collect_params_distinct:
  "distinct (map fst gs) \<Longrightarrow> (k, Some v) \<in> set gs \<Longrightarrow> collect_params gs ps k = Some v"
proof (induction gs arbitrary: ps)
  case Nil
  then show ?case by simp
next
  case (Cons g gs)
  obtain key x where g: "g = (key, x)" by (cases g)
  show ?case
  proof (cases "(k, Some v) = g")
    case True
    with Cons.prems g have "\<forall>w. (k, Some w) \<notin> set gs" by (auto simp: image_iff)
    moreover from True g have "key = k" and "x = Some v" by auto
    ultimately show ?thesis using g by (simp add: collect_params_None)
  next
    case False
    with Cons.prems have "(k, Some v) \<in> set gs" "distinct (map fst gs)" by auto
    then have "\<And>ps. collect_params gs ps k = Some v" using Cons.IH by blast
    then show ?thesis using g by (simp split: option.splits)
  qed
qed

lemma match_routes_Some:
  "match_routes rs um u = Some (rt, ps) \<Longrightarrow>
   rt \<in> set rs \<and>
   (\<exists>gs. pattern rt (pathname u) = Some gs \<and> ps = collect_params gs Map.empty)"
  by (induction rs um u rule: match_routes.induct) (auto split: if_splits option.splits)

lemma match_routes_append:
  "match_routes (rs @ qs) um u =
     (case match_routes rs um u of Some x \<Rightarrow> Some x | None \<Rightarrow> match_routes qs um u)"
  by (induction rs um u rule: match_routes.induct) (auto split: option.splits)

text \<open>
  Claim C7. When \<^verbatim>\<open>Router.match\<close> succeeds with a route and params, the route's
  pattern matched the pathname with some groups, and the params hold exactly the
  captured values: every entry of the params is a group with a captured value, a name
  with no captured value among the groups is absent from the params (not bound to an
  empty string or to null), and, the names of the groups being distinct as the keys of
  an object are, every group with a captured value is in the params with that value.
\<close>

theorem match_params:
  assumes "match r m u = Some (rt, ps)"
  shows "\<exists>gs. pattern rt (pathname u) = Some gs \<and>
           (\<forall>k v. ps k = Some v \<longrightarrow> (k, Some v) \<in> set gs) \<and>
           (\<forall>k. (\<forall>v. (k, Some v) \<notin> set gs) \<longrightarrow> ps k = None) \<and>
           (distinct (map fst gs) \<longrightarrow>
              (\<forall>k v. (k, Some v) \<in> set gs \<longrightarrow> ps k = Some v))"
proof -
  from assms obtain gs where g: "pattern rt (pathname u) = Some gs"
    and p: "ps = collect_params gs Map.empty"
    using match_routes_Some[of "routes r" "toUpperCase m" u rt ps] by (auto simp: match_def)
  have "\<forall>k v. ps k = Some v \<longrightarrow> (k, Some v) \<in> set gs"
    using collect_params_Some[of gs Map.empty] p by auto
  moreover have "\<forall>k. (\<forall>v. (k, Some v) \<notin> set gs) \<longrightarrow> ps k = None"
    using collect_params_None[of _ gs Map.empty] p by auto
  moreover have "distinct (map fst gs) \<longrightarrow>
      (\<forall>k v. (k, Some v) \<in> set gs \<longrightarrow> ps k = Some v)"
    using collect_params_distinct[of gs _ _ Map.empty] p by auto
  ultimately show ?thesis using g by blast
qed

text \<open>The pattern \<^verbatim>\<open>/users/:id\<close>: against \<^verbatim>\<open>/users/42\<close> the params are
  \<^verbatim>\<open>{id: "42"}\<close>; against \<^verbatim>\<open>/users\<close> there is no match.\<close>

lemma users_42:
  "match users_router ''GET'' (localhost ''/users/42'') = Some (users_route, [''id'' \<mapsto> ''42''])"
  by (simp add: users_router_def users_route_def match_def Router_get_def add_def
      new_Router_def localhost_def URLPattern_segments_def to_part_def)

lemma users_none: "match users_router ''GET'' (localhost ''/users'') = None"
  by (simp add: users_router_def match_def Router_get_def add_def new_Router_def
      localhost_def URLPattern_segments_def to_part_def)

theorem match_params_witness:
  "match users_router ''GET'' (localhost ''/users/42'') = Some (users_route, [''id'' \<mapsto> ''42'']) \<and>
   pattern users_route (pathname (localhost ''/users/42'')) = Some [(''id'', Some ''42'')] \<and>
   [''id'' \<mapsto> ''42''] ''id'' = Some ''42'' \<and>
   dom [''id'' \<mapsto> ''42''] = {''id''} \<and>
   match users_router ''GET'' (localhost ''/users'') = None"
  using match_params[OF users_42] users_42 users_none
  by (simp add: users_route_def localhost_def URLPattern_segments_def to_part_def)

text \<open>
  Claim C10. A route added with a method string that upper-cases to \<open>ALL\<close> is stored
  with the method \<open>ALL\<close> and is a candidate for every request method \<open>meth\<close>: when
  its pattern matches the pathname, \<^verbatim>\<open>Router.match\<close> succeeds for every \<open>meth\<close>, with
  the route that the routes registered before give for \<open>meth\<close> if there is one, and
  with this route and its params otherwise.
\<close>

theorem ALL_route_any_method:
  assumes "toUpperCase m = ''ALL''"
    and "URLPattern (router_basePath r @ path) (pathname u) = Some gs"
  shows "match (add URLPattern m path mws h r) meth u =
     (case match r meth u of
        Some x \<Rightarrow> Some x
      | None \<Rightarrow>
          Some (\<lparr>route_method = ''ALL'', pattern = URLPattern (router_basePath r @ path),
                 middlewares = mws, handler = h\<rparr>, collect_params gs Map.empty))"
  using assms by (simp add: match_def add_def match_routes_append split: option.splits)

theorem ALL_route_any_method_witness:
  "match (add URLPattern_segments ''all'' ''/x'' [] (\<lambda>c. (Inr ok, c)) (new_Router []))
     ''DELETE'' (localhost ''/x'') =
   Some (\<lparr>route_method = ''ALL'', pattern = URLPattern_segments ''/x'', middlewares = [],
          handler = (\<lambda>c. (Inr ok, c))\<rparr>, Map.empty) \<and>
   match (add URLPattern_segments ''all'' ''/x'' [] (\<lambda>c. (Inr ok, c)) (new_Router []))
     ''HEAD'' (localhost ''/x'') =
   Some (\<lparr>route_method = ''ALL'', pattern = URLPattern_segments ''/x'', middlewares = [],
          handler = (\<lambda>c. (Inr ok, c))\<rparr>, Map.empty)"
  using ALL_route_any_method[of "''all''" URLPattern_segments "new_Router []" "''/x''"
          "localhost ''/x''" "[]" "[]" "(\<lambda>c. (Inr ok, c))" "''DELETE''"]
        ALL_route_any_method[of "''all''" URLPattern_segments "new_Router []" "''/x''"
          "localhost ''/x''" "[]" "[]" "(\<lambda>c. (Inr ok, c))" "''HEAD''"]
  by (simp add: toUpperCase_def upper_char_def new_Router_def localhost_def
      URLPattern_segments_def to_part_def match_def)

section \<open>Properties of the context\<close>

lemma ctx_json_twice: "ctx_json (snd (ctx_json c)) = (fst (ctx_json c), snd (ctx_json c))"
  by (simp add: ctx_json_def Let_def split: option.splits)

lemma ctx_text_twice: "ctx_text (snd (ctx_text c)) = (fst (ctx_text c), snd (ctx_text c))"
  by (simp add: ctx_text_def Let_def split: option.splits)

lemma read_body_jsonCache:
  "jsonCache c = Some p \<Longrightarrow> jsonCache (snd (read_body k c)) = Some p"
  by (cases k) (simp_all add: ctx_json_def ctx_text_def Let_def split: option.splits)

lemma read_body_textCache:
  "textCache c = Some p \<Longrightarrow> textCache (snd (read_body k c)) = Some p"
  by (cases k) (simp_all add: ctx_json_def ctx_text_def Let_def split: option.splits)

lemma snd_read_bodies_Cons:
  "snd (read_bodies (k # ks) c) = snd (read_bodies ks (snd (read_body k c)))"
  by (simp split: prod.splits)

lemma read_bodies_jsonCache:
  "jsonCache c = Some p \<Longrightarrow> jsonCache (snd (read_bodies ks c)) = Some p"
proof (induction ks arbitrary: c)
  case (Cons k ks)
  from Cons.IH[OF read_body_jsonCache[OF Cons.prems, of k]]
  show ?case by (simp only: snd_read_bodies_Cons)
qed simp

lemma read_bodies_textCache:
  "textCache c = Some p \<Longrightarrow> textCache (snd (read_bodies ks c)) = Some p"
proof (induction ks arbitrary: c)
  case (Cons k ks)
  from Cons.IH[OF read_body_textCache[OF Cons.prems, of k]]
  show ?case by (simp only: snd_read_bodies_Cons)
qed simp

lemma jsonCache_after: "jsonCache (snd (ctx_json c)) = Some (fst (ctx_json c))"
  by (simp add: ctx_json_def Let_def split: option.splits)

lemma textCache_after: "textCache (snd (ctx_text c)) = Some (fst (ctx_text c))"
  by (simp add: ctx_text_def Let_def split: option.splits)

lemma ctx_json_cached: "jsonCache c = Some p \<Longrightarrow> ctx_json c = (p, c)"
  by (simp add: ctx_json_def)

lemma ctx_text_cached: "textCache c = Some p \<Longrightarrow> ctx_text c = (p, c)"
  by (simp add: ctx_text_def)

lemma read_body_step:
  "bodyReads (snd (read_body k c)) + fresh_reads ks (snd (read_body k c)) =
   bodyReads c + fresh_reads (k # ks) c"
  by (cases k)
     (auto simp: fresh_reads_def ctx_json_def ctx_text_def Let_def split: option.splits)

lemma read_bodies_count:
  "bodyReads (snd (read_bodies ks c)) = bodyReads c + fresh_reads ks c"
proof (induction ks arbitrary: c)
  case Nil
  show ?case by (simp add: fresh_reads_def)
next
  case (Cons k ks)
  show ?case by (simp only: snd_read_bodies_Cons Cons.IH read_body_step)
qed

text \<open>
  Claim C8. On any context: after a first read as JSON, and whatever further reads
  (as JSON or as text) follow, a read as JSON returns the promise of the first read;
  the same holds for text. A second read returns the same promise and leaves the
  context as it is, so it makes no read of the underlying body. Any sequence of reads
  adds at most one underlying read for JSON and one for text: exactly one for each
  kind that occurs and whose cache was empty.
\<close>

theorem body_read_once:
  "fst (ctx_json (snd (read_bodies ks (snd (ctx_json c))))) = fst (ctx_json c) \<and>
   fst (ctx_text (snd (read_bodies ks (snd (ctx_text c))))) = fst (ctx_text c) \<and>
   ctx_json (snd (ctx_json c)) = (fst (ctx_json c), snd (ctx_json c)) \<and>
   ctx_text (snd (ctx_text c)) = (fst (ctx_text c), snd (ctx_text c)) \<and>
   bodyReads (snd (read_bodies ks c)) = bodyReads c + fresh_reads ks c"
  by (simp add: ctx_json_twice ctx_text_twice read_bodies_count
      ctx_json_cached[OF read_bodies_jsonCache[OF jsonCache_after]]
      ctx_text_cached[OF read_bodies_textCache[OF textCache_after]])

theorem body_read_once_witness:
  "fst (ctx_json (snd (ctx_json (new_ContextImpl (Request ''POST'' ''/items''))))) =
     \<lparr>promise_id = 0, settles = Inl (Error ''Unexpected end of JSON input'')\<rparr> \<and>
   fst (ctx_json (new_ContextImpl (Request ''POST'' ''/items''))) =
     \<lparr>promise_id = 0, settles = Inl (Error ''Unexpected end of JSON input'')\<rparr> \<and>
   bodyReads (snd (read_bodies [AsJson, AsJson]
                (new_ContextImpl (Request ''POST'' ''/items'')))) = 1 \<and>
   bodyReads (snd (read_bodies [AsJson, AsText, AsJson, AsText]
                (new_ContextImpl (Request ''POST'' ''/items'')))) = 2"
  using body_read_once[of "[AsJson, AsJson]" "new_ContextImpl (Request ''POST'' ''/items'')"]
        body_read_once[of "[AsJson, AsText, AsJson, AsText]"
          "new_ContextImpl (Request ''POST'' ''/items'')"]
  by (simp add: fresh_reads_def new_ContextImpl_def Request_def ctx_json_def Let_def)

lemma respond_result:
  "respond op c =
     (\<lparr>status = status (fst (respond op c)),
       headers = overlay op (hstore c (responseHeaders c)),
       body = body (fst (respond op c))\<rparr>,
      c\<lparr>hstore := (hstore c)(hnext c := overlay op (hstore c (responseHeaders c))),
        hnext := Suc (hnext c)\<rparr>)"
  by (cases op)
     (simp_all add: respond_json_def respond_text_def respond_empty_def respond_redirect_def
        new_Headers_def Headers_set_def overlay_def Let_def)

lemma respond_status_body:
  "status (fst (respond op (c\<lparr>hstore := s, hnext := n\<rparr>))) = status (fst (respond op c)) \<and>
   body (fst (respond op (c\<lparr>hstore := s, hnext := n\<rparr>))) = body (fst (respond op c))"
  by (cases op)
     (simp_all add: respond_json_def respond_text_def respond_empty_def respond_redirect_def
        new_Headers_def Headers_set_def Let_def)

lemma respond_headers:
  "headers (fst (respond op c)) = overlay op (hstore c (responseHeaders c))"
  by (subst respond_result) simp

text \<open>
  Claim C9. On a context whose shared \<^verbatim>\<open>responseHeaders\<close> is an allocated object, each
  of the four operations gives a response whose headers are the list of
  \<^verbatim>\<open>responseHeaders\<close> with the operation's own header laid over it; it changes the
  context in nothing but the allocation of one new \<^verbatim>\<open>Headers\<close> object: no object that
  existed is changed, the shared one in particular; and an operation called after it
  gives the response it gives when called alone, the same operation in particular.
\<close>

theorem respond_frame:
  assumes "responseHeaders c < hnext c"
  shows "headers (fst (respond op c)) = overlay op (hstore c (responseHeaders c)) \<and>
         snd (respond op c) =
           c\<lparr>hstore := hstore (snd (respond op c)), hnext := Suc (hnext c)\<rparr> \<and>
         (\<forall>a. a < hnext c \<longrightarrow> hstore (snd (respond op c)) a = hstore c a) \<and>
         hstore (snd (respond op c)) (responseHeaders c) = hstore c (responseHeaders c) \<and>
         responseHeaders (snd (respond op c)) < hnext (snd (respond op c)) \<and>
         fst (respond op' (snd (respond op c))) = fst (respond op' c) \<and>
         fst (respond op (snd (respond op c))) = fst (respond op c)"
proof -
  let ?c' = "snd (respond op c)"
  have c': "?c' =
      c\<lparr>hstore := (hstore c)(hnext c := overlay op (hstore c (responseHeaders c))),
        hnext := Suc (hnext c)\<rparr>"
    by (subst respond_result) simp
  have same: "hstore ?c' (responseHeaders ?c') = hstore c (responseHeaders c)"
    using assms by (simp add: c')
  have indep: "\<And>o'. fst (respond o' ?c') = fst (respond o' c)"
  proof -
    fix o'
    have "fst (respond o' ?c') = \<lparr>status = status (fst (respond o' ?c')),
       headers = overlay o' (hstore ?c' (responseHeaders ?c')),
       body = body (fst (respond o' ?c'))\<rparr>"
      by (subst respond_result) simp
    also have "\<dots> = \<lparr>status = status (fst (respond o' c)),
       headers = overlay o' (hstore c (responseHeaders c)),
       body = body (fst (respond o' c))\<rparr>"
      unfolding same by (simp add: c' respond_status_body)
    also have "\<dots> = fst (respond o' c)"
      by (simp add: respond_headers[symmetric])
    finally show "fst (respond o' ?c') = fst (respond o' c)" .
  qed
  have h: "headers (fst (respond op c)) = overlay op (hstore c (responseHeaders c))"
    by (rule respond_headers)
  show ?thesis
    using assms h indep by (simp add: c')
qed

theorem respond_frame_witness:
  "fst (respond (RespondJson (JObj [(''message'', JStr ''hello'')]) None)
         (set_header ''X-Custom'' ''middleware'' (new_ContextImpl (Request ''GET'' ''/hello'')))) =
     \<lparr>status = 200,
      headers = [(''x-custom'', ''middleware''), (''content-type'', ''application/json'')],
      body = Stringified (JObj [(''message'', JStr ''hello'')])\<rparr> \<and>
   hstore (snd (respond (RespondJson (JObj [(''message'', JStr ''hello'')]) None)
         (set_header ''X-Custom'' ''middleware''
            (new_ContextImpl (Request ''GET'' ''/hello''))))) 0 =
     [(''x-custom'', ''middleware'')] \<and>
   fst (respond (RespondRedirect ''/login'' None)
         (snd (respond (RespondJson (JObj [(''message'', JStr ''hello'')]) None)
         (set_header ''X-Custom'' ''middleware''
            (new_ContextImpl (Request ''GET'' ''/hello'')))))) =
     \<lparr>status = 302,
      headers = [(''x-custom'', ''middleware''), (''location'', ''/login'')],
      body = NoBody\<rparr>"
  using respond_frame[of
      "set_header ''X-Custom'' ''middleware'' (new_ContextImpl (Request ''GET'' ''/hello''))"
      "RespondJson (JObj [(''message'', JStr ''hello'')]) None"
      "RespondRedirect ''/login'' None"]
  by (simp add: set_header_def Headers_set_def new_ContextImpl_def overlay_def
      toLowerCase_def lower_char_def respond_json_def respond_redirect_def new_Headers_def
      Let_def)

section \<open>Properties of the application\<close>

lemma lower_content_type [simp]: "toLowerCase ''Content-Type'' = ''content-type''"
  by (simp add: toLowerCase_def lower_char_def)

lemma lower_x_custom [simp]: "toLowerCase ''X-Custom'' = ''x-custom''"
  by (simp add: toLowerCase_def lower_char_def)


lemma new_Response_body:
  "b \<noteq> NoBody \<Longrightarrow>
   new_Response P b st hs =
     (if status_with_body st then Inr \<lparr>status = st, headers = hs, body = b\<rparr>
      else Inl (Error (message_of P
             (if st < 200 \<or> 599 < st then StatusOutOfRange st else NullBodyStatus st))))"
  by (auto simp: new_Response_def status_with_body_def null_body_status_def)

lemma new_Response_NoBody:
  "200 \<le> st \<Longrightarrow> st \<le> 599 \<Longrightarrow>
   new_Response P NoBody st hs = Inr \<lparr>status = st, headers = hs, body = NoBody\<rparr>"
  by (simp add: new_Response_def)

lemma status_with_body_500 [simp]: "status_with_body 500"
  by (simp add: status_with_body_def)

lemma default_error_spec:
  "default_error P err c =
     (if status_with_body (spec_error_status err)
      then Inr \<lparr>status = spec_error_status err,
               headers = header_list_set ''content-type'' ''application/json''
                           (hstore c (responseHeaders c)),
               body = Stringified (spec_error_body err)\<rparr>
      else Inl (Error (message_of P
             (if spec_error_status err < 200 \<or> 599 < spec_error_status err
              then StatusOutOfRange (spec_error_status err)
              else NullBodyStatus (spec_error_status err)))))"
proof (cases err)
  case (HttpError st message details)
  then show ?thesis
    by (cases details)
       (simp_all add: default_error_def new_Headers_def Headers_set_def Let_def toJSON_def
          new_Response_body)
next
  case (Error m)
  then show ?thesis
    by (simp add: default_error_def new_Headers_def Headers_set_def Let_def new_Response_body)
next
  case (Thrown v)
  then show ?thesis
    by (simp add: default_error_def new_Headers_def Headers_set_def Let_def new_Response_body)
qed





lemma fold_keeps_url:
  "\<forall>l \<in> set layers. \<forall>x. url (fst l x) = url x \<Longrightarrow> url (fold fst layers c) = url c"
  by (induction layers arbitrary: c) simp_all

text \<open>
  Claim C5, amended. When the effective URL of a request is resolved and the router
  matches no route for its method, the chain that runs is the composition of all
  global middleware (and of nothing else) over the request's context, with a terminal
  continuation that throws the structured error of status 404 whose message is
  "No route matched: ", the request's method, a space and the pathname of \<^verbatim>\<open>ctx.url\<close>
  as it is when the continuation runs. When the global middleware are of the shape
  \<open>around before after\<close> and no hook is set, every \<open>before\<close> part has run, in order,
  when the error is turned into the response: status 404, the context's headers as
  the middleware left them with the JSON content type, and the error as JSON (no body
  for a HEAD request); and when no \<open>before\<close> part changes \<^verbatim>\<open>ctx.url\<close>, the pathname
  in the message is that of the request's own URL.
\<close>

theorem unmatched_runs_global_chain:
  assumes "resolveUrl P (options a) req = Inr eff"
    and "match (router a) (request_method req) eff = None"
  shows
    "try_dispatch P a req c =
       compose (globalMiddlewares a) c
         (\<lambda>c'. (Inl (HttpError 404
                       (not_found_message (request_method req) (pathname (url c'))) None),
                c')) \<and>
     (globalMiddlewares a = map (\<lambda>l. around (fst l) (snd l)) layers \<and>
      onError (options a) = None \<longrightarrow>
        app_handler P a req =
          Inr \<lparr>status = 404,
               headers = header_list_set ''content-type'' ''application/json''
                           (hstore (fold fst layers (new_ContextImpl req))
                              (responseHeaders (fold fst layers (new_ContextImpl req)))),
               body = (if request_method req = ''HEAD'' then NoBody
                       else Stringified
                         (JObj [(''error'',
                                 JStr (not_found_message (request_method req)
                                   (pathname (url (fold fst layers (new_ContextImpl req)))))),
                                (''status'', JNum 404)]))\<rparr>) \<and>
     ((\<forall>l \<in> set layers. \<forall>x. url (fst l x) = url x) \<longrightarrow>
        pathname (url (fold fst layers (new_ContextImpl req))) = pathname (request_url req))"
proof -
  have 1: "try_dispatch P a req c =
       compose (globalMiddlewares a) c
         (\<lambda>c'. (Inl (HttpError 404
                       (not_found_message (request_method req) (pathname (url c'))) None),
                c'))" for c
    using assms by (simp add: try_dispatch_def notFound_def)
  have 2: "globalMiddlewares a = map (\<lambda>l. around (fst l) (snd l)) layers \<and>
      onError (options a) = None \<longrightarrow>
        app_handler P a req =
          Inr \<lparr>status = 404,
               headers = header_list_set ''content-type'' ''application/json''
                           (hstore (fold fst layers (new_ContextImpl req))
                              (responseHeaders (fold fst layers (new_ContextImpl req)))),
               body = (if request_method req = ''HEAD'' then NoBody
                       else Stringified
                         (JObj [(''error'',
                                 JStr (not_found_message (request_method req)
                                   (pathname (url (fold fst layers (new_ContextImpl req)))))),
                                (''status'', JNum 404)]))\<rparr>"
    by (simp add: app_handler_def 1 Let_def compose_around handleError_def default_error_spec
        status_with_body_def new_Response_NoBody)
  have 3: "(\<forall>l \<in> set layers. \<forall>x. url (fst l x) = url x) \<longrightarrow>
        pathname (url (fold fst layers (new_ContextImpl req))) = pathname (request_url req)"
    using fold_keeps_url[of layers "new_ContextImpl req"] by (simp add: new_ContextImpl_def)
  show ?thesis using 1 2 3 by blast
qed

lemma hello_app_unknown:
  "resolveUrl web (options hello_app) (Request ''GET'' ''/unknown'') =
     Inr (localhost ''/unknown'') \<and>
   match (router hello_app) (request_method (Request ''GET'' ''/unknown''))
     (localhost ''/unknown'') = None"
  by (simp add: hello_app_def app_get_def app_use_def Router_get_def add_def
      new_SupaEdgeApp_def no_options_def new_Router_def resolveUrl_def Request_def
      localhost_def function_prefix_def match_def URLPattern_segments_def to_part_def)

theorem unmatched_runs_global_chain_witness:
  "app_handler web hello_app (Request ''GET'' ''/unknown'') =
     Inr \<lparr>status = 404,
      headers = [(''x-custom'', ''middleware''), (''content-type'', ''application/json'')],
      body = Stringified (JObj [(''error'', JStr ''No route matched: GET /unknown''),
                                (''status'', JNum 404)])\<rparr>"
  using conjunct1[OF conjunct2[OF unmatched_runs_global_chain[OF conjunct1[OF hello_app_unknown]
      conjunct2[OF hello_app_unknown],
      of "new_ContextImpl (Request ''GET'' ''/unknown'')"
         "[(set_header ''X-Custom'' ''middleware'', id)]"]]]
  by (simp add: hello_app_def app_get_def app_use_def new_SupaEdgeApp_def no_options_def
      set_header_def Headers_set_def new_ContextImpl_def not_found_message_def Request_def
      localhost_def)

text \<open>Where the claim as stated fails. The request path
  \<^verbatim>\<open>/functions/v1/my-fn///todos\<close> matches no route, with the prefix or without it, but
  \<^verbatim>\<open>new URL("///todos", url.origin)\<close> throws in \<^verbatim>\<open>resolveUrl\<close>: no global middleware
  runs, and the answer is 500 without the header that the global middleware sets. And
  after a global middleware that rewrites \<^verbatim>\<open>ctx.url.pathname\<close>, the message of the
  not-found error has the rewritten path, not the path of the request.\<close>

theorem unmatched_runs_global_chain_counterexample:
  "match (router hello_app) ''GET'' (localhost ''/functions/v1/my-fn///todos'') = None \<and>
   match (router hello_app) ''GET'' (localhost ''///todos'') = None \<and>
   app_handler web hello_app (Request ''GET'' ''/functions/v1/my-fn///todos'') =
     Inr \<lparr>status = 500, headers = [(''content-type'', ''application/json'')],
          body = Stringified (JObj [(''error'', JStr ''Invalid URL''), (''status'', JNum 500)])\<rparr> \<and>
   app_handler web rewrite_app (Request ''GET'' ''/unknown'') =
     Inr \<lparr>status = 404, headers = [(''content-type'', ''application/json'')],
          body = Stringified (JObj [(''error'', JStr ''No route matched: GET /rewritten''),
                                    (''status'', JNum 404)])\<rparr>"
  by (simp add: hello_app_def rewrite_app_def app_get_def app_use_def Router_get_def add_def
      new_SupaEdgeApp_def no_options_def new_Router_def resolveUrl_def new_URL_def Request_def
      localhost_def function_prefix_def match_def URLPattern_segments_def to_part_def
      app_handler_def try_dispatch_def compose_def dispatch_step dispatch_final run_mw_around
      new_ContextImpl_def handleError_def default_error_spec status_with_body_def web_def
      notFound_def not_found_message_def Let_def)

subsection \<open>The effective URL\<close>

text \<open>With a base path configured (a non-empty string), the URL of the request is used
  as it is.\<close>

lemma resolveUrl_basePath:
  "basePath opts = Some b \<Longrightarrow> b \<noteq> [] \<Longrightarrow> resolveUrl P opts req = Inr (request_url req)"
  by (simp add: resolveUrl_def)

lemma resolveUrl_no_prefix:
  "basePath opts = None \<or> basePath opts = Some [] \<Longrightarrow>
   function_prefix (pathname (request_url req)) = None \<Longrightarrow>
   resolveUrl P opts req = Inr (request_url req)"
  by (auto simp add: resolveUrl_def)

text \<open>Without a base path, a pathname that starts with the prefix of a function
  invocation loses it (and is the root path when nothing is left), provided that what
  is left does not start with two slashes.\<close>

lemma resolveUrl_strip:
  assumes "basePath opts = None \<or> basePath opts = Some []"
    and "function_prefix (pathname (request_url req)) = Some m"
    and "rest = drop (length m) (pathname (request_url req))"
    and "take 2 rest \<noteq> ''//''"
  shows "resolveUrl P opts req =
           Inr ((request_url req)\<lparr>pathname := (if rest = [] then ''/'' else rest)\<rparr>)"
  using assms by (auto simp add: resolveUrl_def new_URL_def Let_def)

lemma resolveUrl_todos:
  "resolveUrl P no_options (Request ''GET'' ''/functions/v1/my-fn/todos'') =
     Inr (localhost ''/todos'')"
  by (simp add: resolveUrl_def no_options_def Request_def localhost_def function_prefix_def
      new_URL_def)

text \<open>
  Claim C6, at the request path \<^verbatim>\<open>/functions/v1/my-fn//todos\<close> with no base path. The
  prefix \<^verbatim>\<open>/functions/v1/my-fn\<close> is removed and \<^verbatim>\<open>//todos\<close> is left, which
  \<^verbatim>\<open>new URL(stripped, url.origin)\<close> reads as a reference to the host \<^verbatim>\<open>todos\<close>: the
  effective URL has that host and the root path (or the constructor throws, when the
  platform refuses the host), whereas a request to \<^verbatim>\<open>//todos\<close> keeps its pathname.
  The router gives the root route for the first and no route for the second, and the
  application answers 200 and 404.
\<close>

theorem resolveUrl_scheme_relative:
  "resolveUrl P no_options (Request ''GET'' ''/functions/v1/my-fn//todos'') =
     (case parse_host P ''todos'' of
        None \<Rightarrow> Inl (Error (message_of P (InvalidURL ''//todos'')))
      | Some h \<Rightarrow> Inr \<lparr>protocol = ''http:'', host = h, pathname = ''/'', search = []\<rparr>) \<and>
   resolveUrl P no_options (Request ''GET'' ''//todos'') = Inr (localhost ''//todos'') \<and>
   match (router root_app) ''GET''
     \<lparr>protocol = ''http:'', host = ''todos'', pathname = ''/'', search = []\<rparr> \<noteq> None \<and>
   match (router root_app) ''GET'' (localhost ''//todos'') = None \<and>
   app_handler web root_app (Request ''GET'' ''/functions/v1/my-fn//todos'') =
     Inr \<lparr>status = 200, headers = [(''content-type'', ''text/plain; charset=utf-8'')],
          body = Text ''root''\<rparr> \<and>
   app_handler web root_app (Request ''GET'' ''//todos'') =
     Inr \<lparr>status = 404, headers = [(''content-type'', ''application/json'')],
          body = Stringified (JObj [(''error'', JStr ''No route matched: GET //todos''),
                                    (''status'', JNum 404)])\<rparr>"
  by (simp add: resolveUrl_def no_options_def Request_def localhost_def function_prefix_def
      new_URL_def root_app_def app_get_def Router_get_def add_def new_SupaEdgeApp_def
      new_Router_def match_def URLPattern_segments_def to_part_def
      app_handler_def try_dispatch_def compose_def dispatch_final new_ContextImpl_def
      returns_def respond_text_def new_Headers_def Headers_set_def Let_def
      handleError_def default_error_spec status_with_body_def notFound_def
      not_found_message_def web_def
      split: option.splits)

subsection \<open>HEAD requests\<close>

lemma match_routes_GET_HEAD:
  "match_routes rs ''GET'' u = Some x \<Longrightarrow> \<exists>y. match_routes rs ''HEAD'' u = Some y"
  by (induction rs "''GET''" u rule: match_routes.induct) (auto split: if_splits option.splits)

lemma match_routes_HEAD_None:
  "\<forall>rt \<in> set rs. route_method rt \<in> {''HEAD'', ''ALL'', ''GET''} \<longrightarrow>
                  pattern rt (pathname u) = None \<Longrightarrow>
   match_routes rs ''HEAD'' u = None"
  by (induction rs "''HEAD''" u rule: match_routes.induct) (auto split: if_splits option.splits)

lemma match_routes_HEAD_eq_GET:
  "\<forall>rt \<in> set rs. route_method rt = ''HEAD'' \<longrightarrow> pattern rt (pathname u) = None \<Longrightarrow>
   match_routes rs ''HEAD'' u = match_routes rs ''GET'' u"
  by (induction rs) (auto split: if_splits option.splits)

lemma match_routes_POST_only:
  "\<forall>rt \<in> set rs. route_method rt = ''POST'' \<Longrightarrow> match_routes rs ''HEAD'' u = None"
  by (induction rs) (auto split: if_splits option.splits)

text \<open>The relation between the context of a HEAD request and that of the same request
  sent with GET, and its passage through \<^verbatim>\<open>dispatch\<close> and the composed chain.\<close>

lemma head_getD:
  assumes "head_get c c'"
  shows "request_method (request c) = ''HEAD''"
    and "c' = c\<lparr>request := (request c)\<lparr>request_method := ''GET''\<rparr>, trace := trace c'\<rparr>"
proof -
  from assms show "request_method (request c) = ''HEAD''" by (simp add: head_get_def)
  from assms have "c'\<lparr>trace := []\<rparr> = (as_method ''GET'' c)\<lparr>trace := []\<rparr>"
    by (simp add: head_get_def)
  then have "(c'\<lparr>trace := []\<rparr>)\<lparr>trace := trace c'\<rparr> =
             ((as_method ''GET'' c)\<lparr>trace := []\<rparr>)\<lparr>trace := trace c'\<rparr>"
    by simp
  then show "c' = c\<lparr>request := (request c)\<lparr>request_method := ''GET''\<rparr>, trace := trace c'\<rparr>"
    by (simp add: as_method_def)
qed

lemma head_getI:
  "request_method (request c) = ''HEAD'' \<Longrightarrow>
   head_get c (c\<lparr>request := (request c)\<lparr>request_method := ''GET''\<rparr>, trace := t\<rparr>)"
  by (simp add: head_get_def as_method_def)

lemma dispatch_head_get:
  assumes ms: "\<forall>p \<in> set ms. mw_head_get p" and fin: "handler_head_get fin"
  shows "head_get c c' \<Longrightarrow> rel_out (dispatch ms fin i (idx, c)) (dispatch ms fin i (idx, c'))"
proof (induction "length ms - i" arbitrary: i idx c c')
  case 0
  show ?case
  proof (cases "int i \<le> idx")
    case True
    then show ?thesis using 0 by (simp add: dispatch_reject rel_out_def)
  next
    case False
    have f: "fst (fin c) = fst (fin c')" "head_get (snd (fin c)) (snd (fin c'))"
      using fin "0.prems" by (auto simp: handler_head_get_def)
    from 0 False show ?thesis
      by (simp add: dispatch_final rel_out_def f split_beta)
  qed
next
  case (Suc n)
  then have lt: "i < length ms" by simp
  show ?case
  proof (cases "int i \<le> idx")
    case True
    then show ?thesis using Suc.prems by (simp add: dispatch_reject rel_out_def)
  next
    case False
    have nx: "\<forall>j e e'. head_get e e' \<longrightarrow>
                rel_out (dispatch ms fin (Suc i) (j, e)) (dispatch ms fin (Suc i) (j, e'))"
      using Suc.hyps(1)[of "Suc i"] Suc.hyps(2) by simp
    have "mw_head_get (ms ! i)" using ms lt by simp
    then have "rel_out (run_mw (dispatch ms fin (Suc i)) (ms ! i) (int i, c))
                       (run_mw (dispatch ms fin (Suc i)) (ms ! i) (int i, c'))"
      unfolding mw_head_get_def using nx Suc.prems by blast
    then show ?thesis using False lt by (simp add: dispatch_step)
  qed
qed

lemma compose_head_get:
  assumes "\<forall>p \<in> set ms. mw_head_get p" and "handler_head_get fin" and "head_get c c'"
  shows "fst (compose ms c fin) = fst (compose ms c' fin) \<and>
         head_get (snd (compose ms c fin)) (snd (compose ms c' fin))"
  using dispatch_head_get[OF assms, of 0 "- 1"]
  by (simp add: compose_def rel_out_def split_beta)

lemma default_error_head_get:
  assumes "head_get c c'"
  shows "default_error P e c' = default_error P e c"
proof -
  have "hstore c' = hstore c" "responseHeaders c' = responseHeaders c"
    by (subst head_getD(2)[OF assms], simp)+
  then show ?thesis by (simp add: default_error_spec)
qed

lemma head_getE:
  assumes "head_get c c'"
  obtains t where "c' = c\<lparr>request := (request c)\<lparr>request_method := ''GET''\<rparr>, trace := t\<rparr>"
  using head_getD(2)[OF assms] by blast

lemma handleError_head_get:
  assumes "head_get c c'"
    and "case onError opts of None \<Rightarrow> True | Some hook \<Rightarrow> \<forall>e. handler_head_get (hook e)"
  shows "handleError P opts e c' = handleError P opts e c"
proof (cases "onError opts")
  case None
  then show ?thesis by (simp add: handleError_def default_error_head_get[OF assms(1)])
next
  case (Some hook)
  with assms(2) have h: "handler_head_get (hook e)" by simp
  obtain r1 c1 where hc: "hook e c = (r1, c1)" by (cases "hook e c")
  obtain r2 c2 where hc': "hook e c' = (r2, c2)" by (cases "hook e c'")
  from h[unfolded handler_head_get_def, rule_format, OF assms(1)] hc hc'
  have f: "r2 = r1" and g: "head_get c1 c2"
    by simp_all
  show ?thesis
    using Some hc hc' f default_error_head_get[OF g, of P e]
    by (cases r1) (simp_all add: handleError_def)
qed

lemma resolveUrl_method:
  "resolveUrl P opts (req\<lparr>request_method := m\<rparr>) = resolveUrl P opts req"
  by (simp add: resolveUrl_def Let_def split: option.splits)

lemma new_ContextImpl_head_get:
  "request_method req = ''HEAD'' \<Longrightarrow>
   head_get ((new_ContextImpl req)\<lparr>params := ps\<rparr>)
            ((new_ContextImpl (req\<lparr>request_method := ''GET''\<rparr>))\<lparr>params := ps\<rparr>)"
  by (simp add: head_get_def new_ContextImpl_def as_method_def)

lemma toUpperCase_methods [simp]:
  "toUpperCase ''POST'' = ''POST''" "toUpperCase ''PUT'' = ''PUT''"
  "toUpperCase ''PATCH'' = ''PATCH''" "toUpperCase ''DELETE'' = ''DELETE''"
  by (simp_all add: toUpperCase_def upper_char_def)

text \<open>The application registers routes for GET, POST, PUT, PATCH and DELETE only: no
  route of an application is registered for HEAD.\<close>

lemma app_no_HEAD_route:
  "routes (router (new_SupaEdgeApp opts)) = []"
  "\<forall>rt \<in> set (routes (router a)). route_method rt \<noteq> ''HEAD'' \<Longrightarrow>
   (\<forall>rt \<in> set (routes (router (app_use p a))). route_method rt \<noteq> ''HEAD'') \<and>
   (\<forall>rt \<in> set (routes (router (app_get U path ms h a))). route_method rt \<noteq> ''HEAD'') \<and>
   (\<forall>rt \<in> set (routes (router (app_post U path ms h a))). route_method rt \<noteq> ''HEAD'') \<and>
   (\<forall>rt \<in> set (routes (router (app_put U path ms h a))). route_method rt \<noteq> ''HEAD'') \<and>
   (\<forall>rt \<in> set (routes (router (app_patch U path ms h a))). route_method rt \<noteq> ''HEAD'') \<and>
   (\<forall>rt \<in> set (routes (router (app_delete U path ms h a))). route_method rt \<noteq> ''HEAD'')"
  by (simp_all add: new_SupaEdgeApp_def new_Router_def app_use_def app_get_def app_post_def
      app_put_def app_patch_def app_delete_def Router_get_def Router_post_def Router_put_def
      Router_patch_def Router_delete_def add_def)

lemma head_body:
  "request_method req = ''HEAD'' \<Longrightarrow> app_handler P a req = Inr res \<Longrightarrow> body res = NoBody"
  by (auto simp: app_handler_def Let_def new_Response_def split: sum.splits if_splits)

lemma head_like_get:
  assumes hd: "request_method req = ''HEAD''"
    and eff: "resolveUrl P (options a) req = Inr eff"
    and m: "match (router a) ''GET'' eff = Some (rt, ps)"
    and nohead: "\<forall>r \<in> set (routes (router a)).
                   route_method r = ''HEAD'' \<longrightarrow> pattern r (pathname eff) = None"
    and bl: "\<forall>p \<in> set (globalMiddlewares a @ middlewares rt). mw_head_get p"
    and bh: "handler_head_get (handler rt)"
    and hk: "case onError (options a) of
               None \<Rightarrow> True
             | Some hook \<Rightarrow> \<forall>e. handler_head_get (hook e)"
  shows "app_handler P a req =
           (case app_handler P a (req\<lparr>request_method := ''GET''\<rparr>) of
              Inl e \<Rightarrow> Inl e
            | Inr g \<Rightarrow> new_Response P NoBody (status g) (headers g))"
proof -
  let ?g = "req\<lparr>request_method := ''GET''\<rparr>"
  let ?ms = "globalMiddlewares a @ middlewares rt"
  let ?c = "(new_ContextImpl req)\<lparr>params := ps\<rparr>"
  let ?c' = "(new_ContextImpl ?g)\<lparr>params := ps\<rparr>"
  let ?X = "compose ?ms ?c (handler rt)"
  let ?Y = "compose ?ms ?c' (handler rt)"
  have mh: "match (router a) ''HEAD'' eff = Some (rt, ps)"
    using m match_routes_HEAD_eq_GET[OF nohead] by (simp add: match_def)
  have rel: "fst ?X = fst ?Y" "head_get (snd ?X) (snd ?Y)"
    using compose_head_get[OF bl bh new_ContextImpl_head_get[OF hd, of ps]] by simp_all
  have th: "try_dispatch P a req (new_ContextImpl req) = ?X"
    using eff mh hd by (simp add: try_dispatch_def)
  have tg: "try_dispatch P a ?g (new_ContextImpl ?g) = ?Y"
    using eff m by (simp add: try_dispatch_def resolveUrl_method)
  let ?R = "case ?X of (Inr r, c') \<Rightarrow> Inr r | (Inl e, c') \<Rightarrow> handleError P (options a) e c'"
  obtain r1 c1 where X: "?X = (r1, c1)" by (cases ?X)
  obtain r2 c2 where Y: "?Y = (r2, c2)" by (cases ?Y)
  from rel X Y have r: "r2 = r1" and cc: "head_get c1 c2" by simp_all
  have same: "(case ?Y of (Inr r, c') \<Rightarrow> Inr r | (Inl e, c') \<Rightarrow> handleError P (options a) e c') = ?R"
    unfolding X Y r
    by (cases r1) (simp_all add: handleError_head_get[OF cc hk])
  have g: "app_handler P a ?g = ?R"
    by (simp add: app_handler_def tg same Let_def split: sum.splits)
  have h: "app_handler P a req =
      (case ?R of Inl e \<Rightarrow> Inl e | Inr res \<Rightarrow> new_Response P NoBody (status res) (headers res))"
    using hd by (simp add: app_handler_def th Let_def split: sum.splits)
  show ?thesis unfolding g h ..
qed

text \<open>
  Claim C4, amended. \<^verbatim>\<open>Router.match("HEAD", url)\<close> succeeds wherever
  \<^verbatim>\<open>match("GET", url)\<close> succeeds. It fails wherever no route registered for GET, HEAD
  or ALL matches the URL, and against routes that are all registered for POST; when no
  route registered for HEAD matches the URL it gives what \<^verbatim>\<open>match("GET", url)\<close>
  gives. A response to a HEAD request has no body, on every path. When a HEAD request
  resolves to a URL that a GET route matches and no route registered for HEAD matches,
  and the global middleware, the middleware and the handler of the matched route, and
  the error hook if any, do the same for HEAD and for GET, then the application does
  for the HEAD request what it does for the same request sent with GET, whether the
  chain fulfils or rejects, but for the last step: it answers with the body-less copy
  of the GET response, which has its status and its headers.
\<close>

theorem head_matching:
  "(match r ''GET'' u \<noteq> None \<longrightarrow> match r ''HEAD'' u \<noteq> None) \<and>
   ((\<forall>rt \<in> set (routes r). route_method rt \<in> {''HEAD'', ''ALL'', ''GET''} \<longrightarrow>
        pattern rt (pathname u) = None) \<longrightarrow> match r ''HEAD'' u = None) \<and>
   ((\<forall>rt \<in> set (routes r). route_method rt = ''POST'') \<longrightarrow> match r ''HEAD'' u = None) \<and>
   ((\<forall>rt \<in> set (routes r). route_method rt = ''HEAD'' \<longrightarrow> pattern rt (pathname u) = None) \<longrightarrow>
        match r ''HEAD'' u = match r ''GET'' u) \<and>
   (request_method req = ''HEAD'' \<and> app_handler P a req = Inr res \<longrightarrow> body res = NoBody) \<and>
   (request_method req = ''HEAD'' \<and>
    resolveUrl P (options a) req = Inr eff \<and>
    match (router a) ''GET'' eff = Some (rt, ps) \<and>
    (\<forall>x \<in> set (routes (router a)).
       route_method x = ''HEAD'' \<longrightarrow> pattern x (pathname eff) = None) \<and>
    (\<forall>p \<in> set (globalMiddlewares a @ middlewares rt). mw_head_get p) \<and>
    handler_head_get (handler rt) \<and>
    (case onError (options a) of
       None \<Rightarrow> True
     | Some hook \<Rightarrow> \<forall>e. handler_head_get (hook e)) \<longrightarrow>
      app_handler P a req =
        (case app_handler P a (req\<lparr>request_method := ''GET''\<rparr>) of
           Inl e \<Rightarrow> Inl e
         | Inr g \<Rightarrow> new_Response P NoBody (status g) (headers g)))"
proof -
  have 1: "match r ''GET'' u \<noteq> None \<longrightarrow> match r ''HEAD'' u \<noteq> None"
    using match_routes_GET_HEAD[of "routes r" u] by (auto simp: match_def)
  have 2: "(\<forall>rt \<in> set (routes r). route_method rt \<in> {''HEAD'', ''ALL'', ''GET''} \<longrightarrow>
        pattern rt (pathname u) = None) \<longrightarrow> match r ''HEAD'' u = None"
    using match_routes_HEAD_None[of "routes r" u] by (simp add: match_def)
  have 3: "(\<forall>rt \<in> set (routes r). route_method rt = ''POST'') \<longrightarrow> match r ''HEAD'' u = None"
    using match_routes_POST_only[of "routes r" u] by (simp add: match_def)
  have 4: "(\<forall>rt \<in> set (routes r). route_method rt = ''HEAD'' \<longrightarrow>
              pattern rt (pathname u) = None) \<longrightarrow>
        match r ''HEAD'' u = match r ''GET'' u"
    using match_routes_HEAD_eq_GET[of "routes r" u] by (simp add: match_def)
  show ?thesis
    using 1 2 3 4 head_body[of req P a res] head_like_get[of req P a eff rt ps]
    by blast
qed

text \<open>The repository's \<^verbatim>\<open>cors()\<close> and \<^verbatim>\<open>logger()\<close> do the same for HEAD and for GET
  (the first tells OPTIONS from the other methods, the second writes the method to the
  console), and so does a handler that returns a text response.\<close>

lemma head_get_emit: "head_get c c' \<Longrightarrow> head_get (emit l c) (emit l' c')"
  by (simp add: head_get_def emit_def as_method_def)

lemma head_get_set_shared:
  assumes "head_get c c'"
  shows "head_get (Headers_set (responseHeaders c) n v c)
                  (Headers_set (responseHeaders c') n v c')"
proof -
  from assms obtain t
    where c': "c' = c\<lparr>request := (request c)\<lparr>request_method := ''GET''\<rparr>, trace := t\<rparr>"
    by (rule head_getE)
  show ?thesis
    unfolding c'
    by (simp add: head_getD(1)[OF assms] head_get_def Headers_set_def as_method_def)
qed

lemma run_mw_Next_Done: "run_mw nxt (Next Done) d = nxt d"
  by (simp add: split_beta)

lemma run_cors:
  "request_method (request c) \<noteq> ''OPTIONS'' \<Longrightarrow>
   run_mw nxt cors (i, c) =
     nxt (i, Headers_set (responseHeaders c) ''Access-Control-Allow-Origin'' ''*'' c)"
  by (simp add: cors_def Headers_set_def split_beta)

lemma cors_head_get: "mw_head_get cors"
  unfolding mw_head_get_def
proof (intro allI impI, elim conjE)
  fix nxt nxt' :: "dstate \<Rightarrow> result \<times> dstate" and i c c'
  assume nx: "\<forall>j e e'. head_get e e' \<longrightarrow> rel_out (nxt (j, e)) (nxt' (j, e'))"
    and hg: "head_get c c'"
  have m: "request_method (request c) = ''HEAD''" by (rule head_getD(1)[OF hg])
  have m': "request_method (request c') = ''GET''"
  proof -
    from hg obtain t
      where "c' = c\<lparr>request := (request c)\<lparr>request_method := ''GET''\<rparr>, trace := t\<rparr>"
      by (rule head_getE)
    then show ?thesis by simp
  qed
  show "rel_out (run_mw nxt cors (i, c)) (run_mw nxt' cors (i, c'))"
    using nx head_get_set_shared[OF hg] by (simp add: run_cors m m')
qed

lemma run_logger:
  "run_mw nxt logger (i, c) =
     (case fst (nxt (i, c)) of
        Inl err \<Rightarrow>
          (Inl err, (fst (snd (nxt (i, c))),
             emit (''[supa-edge] '' @ request_method (request c) @ '' '' @
                     pathname (url c) @ '' ERR'') (snd (snd (nxt (i, c))))))
      | Inr response \<Rightarrow>
          (Inr response, (fst (snd (nxt (i, c))),
             emit (''[supa-edge] '' @ request_method (request c) @ '' '' @
                     pathname (url c)) (snd (snd (nxt (i, c)))))))"
  by (simp add: logger_def split_beta split: sum.splits)

lemma logger_head_get: "mw_head_get logger"
  unfolding mw_head_get_def
proof (intro allI impI, elim conjE)
  fix nxt nxt' :: "dstate \<Rightarrow> result \<times> dstate" and i c c'
  assume nx: "\<forall>j e e'. head_get e e' \<longrightarrow> rel_out (nxt (j, e)) (nxt' (j, e'))"
    and hg: "head_get c c'"
  from nx hg have r: "rel_out (nxt (i, c)) (nxt' (i, c'))" by blast
  show "rel_out (run_mw nxt logger (i, c)) (run_mw nxt' logger (i, c'))"
    using r by (cases "fst (nxt' (i, c'))") (simp_all add: run_logger rel_out_def head_get_emit)
qed

lemma respond_text_head_get: "handler_head_get (returns (respond_text data st))"
  unfolding handler_head_get_def
proof (intro allI impI)
  fix c c'
  assume hg: "head_get c c'"
  show "fst (returns (respond_text data st) c) = fst (returns (respond_text data st) c') \<and>
        head_get (snd (returns (respond_text data st) c)) (snd (returns (respond_text data st) c'))"
  proof -
    from hg obtain t
      where c': "c' = c\<lparr>request := (request c)\<lparr>request_method := ''GET''\<rparr>, trace := t\<rparr>"
      by (rule head_getE)
    show ?thesis
      unfolding c'
      by (simp add: head_getD(1)[OF hg] returns_def respond_text_def new_Headers_def
          Headers_set_def head_get_def as_method_def)
  qed
qed

lemma lower_acao [simp]:
  "toLowerCase ''Access-Control-Allow-Origin'' = ''access-control-allow-origin''"
  by (simp add: toLowerCase_def lower_char_def)

lemma cors_app_get:
  "app_handler web cors_app (Request ''GET'' ''/hello'') =
     Inr \<lparr>status = 200,
          headers = [(''access-control-allow-origin'', ''*''),
                     (''content-type'', ''text/plain; charset=utf-8'')],
          body = Text ''hi''\<rparr>"
  by (simp add: app_handler_def try_dispatch_def cors_app_def app_get_def app_use_def
      Router_get_def add_def new_SupaEdgeApp_def no_options_def new_Router_def
      resolveUrl_def Request_def localhost_def function_prefix_def match_def
      URLPattern_segments_def to_part_def compose_def dispatch_step dispatch_final
      run_cors run_logger new_ContextImpl_def Headers_set_def returns_def
      respond_text_def new_Headers_def Let_def emit_def)

lemma cors_app_facts:
  "resolveUrl web (options cors_app) (Request ''HEAD'' ''/hello'') = Inr (localhost ''/hello'')"
  "match (router cors_app) ''GET'' (localhost ''/hello'') =
     Some (\<lparr>route_method = ''GET'', pattern = URLPattern_segments ''/hello'',
            middlewares = [], handler = returns (respond_text ''hi'' None)\<rparr>, Map.empty)"
  "\<forall>x \<in> set (routes (router cors_app)).
     route_method x = ''HEAD'' \<longrightarrow> pattern x (pathname (localhost ''/hello'')) = None"
  "globalMiddlewares cors_app = [cors, logger]"
  "onError (options cors_app) = None"
  by (simp_all add: cors_app_def app_get_def app_use_def Router_get_def add_def
      new_SupaEdgeApp_def no_options_def new_Router_def resolveUrl_def Request_def
      localhost_def function_prefix_def match_def URLPattern_segments_def to_part_def)

text \<open>An application with \<^verbatim>\<open>cors()\<close>, \<^verbatim>\<open>logger()\<close> and the route \<^verbatim>\<open>/hello\<close>, under
  a HEAD request.\<close>

theorem head_matching_witness:
  "app_handler web cors_app (Request ''HEAD'' ''/hello'') =
     Inr \<lparr>status = 200,
          headers = [(''access-control-allow-origin'', ''*''),
                     (''content-type'', ''text/plain; charset=utf-8'')],
          body = NoBody\<rparr> \<and>
   match users_router ''HEAD'' (localhost ''/users/42'') =
     Some (users_route, [''id'' \<mapsto> ''42''])"
  using head_matching[of users_router "localhost ''/users/42''" "Request ''HEAD'' ''/hello''" web
          cors_app ok "localhost ''/hello''"
          "\<lparr>route_method = ''GET'', pattern = URLPattern_segments ''/hello'',
            middlewares = [], handler = returns (respond_text ''hi'' None)\<rparr>" Map.empty]
        cors_app_facts cors_head_get logger_head_get respond_text_head_get[of "''hi''" None]
        cors_app_get users_42
  by (simp add: Request_def users_router_def Router_get_def add_def new_Router_def
      new_Response_NoBody)

text \<open>Where the claim as stated fails: a route registered for HEAD matches a HEAD
  request where no GET route matches; and a handler that answers by \<^verbatim>\<open>ctx.method\<close>
  gives a HEAD request another status than a GET request.\<close>

theorem head_matching_counterexample:
  "match head_router ''HEAD'' (localhost ''/x'') \<noteq> None \<and>
   match head_router ''GET'' (localhost ''/x'') = None \<and>
   app_handler web method_app (Request ''GET'' ''/m'') =
     Inr \<lparr>status = 200, headers = [(''content-type'', ''text/plain; charset=utf-8'')],
          body = Text ''ok''\<rparr> \<and>
   app_handler web method_app (Request ''HEAD'' ''/m'') =
     Inr \<lparr>status = 405, headers = [(''content-type'', ''text/plain; charset=utf-8'')],
          body = NoBody\<rparr>"
  by (simp add: head_router_def match_def add_def new_Router_def localhost_def
      URLPattern_segments_def to_part_def
      app_handler_def try_dispatch_def method_app_def app_get_def Router_get_def
      new_SupaEdgeApp_def no_options_def resolveUrl_def Request_def
      function_prefix_def compose_def dispatch_final new_ContextImpl_def
      returns_def respond_text_def new_Headers_def Headers_set_def Let_def new_Response_NoBody)

end
